theory Spec2Isabelle
  imports Complex_Main "HOL-Library.Sublist" "HOL-Library.AList"
begin

section \<open>Strings\<close>

text \<open>
  Python strings are modelled as \<^typ>\<open>string\<close> (lists of 8-bit characters), so the model
  covers ASCII text: \<open>str.lower\<close> and \<open>str.upper\<close> change the 26 ASCII letters and
  leave every other character alone. The substring test \<open>w in q\<close> is \<^const>\<open>sublist\<close>.
\<close>

definition ascii_upper :: string where
  "ascii_upper = ''ABCDEFGHIJKLMNOPQRSTUVWXYZ''"

definition ascii_lower :: string where
  "ascii_lower = ''abcdefghijklmnopqrstuvwxyz''"

definition lower_char :: "char \<Rightarrow> char" where
  "lower_char c = (case map_of (zip ascii_upper ascii_lower) c of None \<Rightarrow> c | Some d \<Rightarrow> d)"

definition upper_char :: "char \<Rightarrow> char" where
  "upper_char c = (case map_of (zip ascii_lower ascii_upper) c of None \<Rightarrow> c | Some d \<Rightarrow> d)"

definition lower :: "string \<Rightarrow> string" where
  "lower s = map lower_char s"

definition upper :: "string \<Rightarrow> string" where
  "upper s = map upper_char s"

text \<open>\<open>sep.join(xs)\<close>\<close>

fun join :: "string \<Rightarrow> string list \<Rightarrow> string" where
  "join sep [] = []"
| "join sep [x] = x"
| "join sep (x # y # ys) = x @ sep @ join sep (y # ys)"

definition is_digit :: "char \<Rightarrow> bool" where
  "is_digit c = (c \<in> set ''0123456789'')"

definition digit_char :: "nat \<Rightarrow> char" where
  "digit_char n = ''0123456789'' ! n"

text \<open>\<open>str(n)\<close> for an integer: its decimal digits, with a minus sign when negative.\<close>

fun str_of_nat :: "nat \<Rightarrow> string" where
  "str_of_nat n =
     (if n < 10 then [digit_char n] else str_of_nat (n div 10) @ [digit_char (n mod 10)])"

declare str_of_nat.simps [simp del]

definition str_of_int :: "int \<Rightarrow> string" where
  "str_of_int i = (if i < 0 then CHR ''-'' # str_of_nat (nat (- i)) else str_of_nat (nat i))"

text \<open>\<open>int(ds)\<close> for a string of decimal digits.\<close>

definition digit_val :: "char \<Rightarrow> nat" where
  "digit_val c = (case map_of (zip ''0123456789'' [0, 1, 2, 3, 4, 5, 6, 7, 8, 9]) c of
                    None \<Rightarrow> 0 | Some d \<Rightarrow> d)"

definition nat_of_digits :: "string \<Rightarrow> nat" where
  "nat_of_digits ds = foldl (\<lambda>a c. 10 * a + digit_val c) 0 ds"

text \<open>The exceptions the modelled code raises.\<close>

datatype error =
    ValueError string
  | KeyError string
  | IndexError
  | OverflowError
  | TokenError string
  | OSError string

section \<open>Policy engine (src/policy/engine.py)\<close>

text \<open>
  A constraints dictionary maps constraint names to integers; it is kept as an
  association list, \<open>{}\<close> being \<open>[]\<close>.
\<close>

type_synonym constraints = "(string \<times> int) list"

text \<open>A requested field: \<open>{"field": ..., "sensitivity": ...}\<close>; either key may be absent.\<close>

record field_req =
  field_name :: "string option"
  sensitivity :: "string option"

text \<open>
  The policy request. \<open>role\<close> is \<open>user_attributes.role\<close> (absent: \<open>None\<close>),
  \<open>req_min_group_size\<close> is \<open>privacy.min_group_size\<close> (absent: \<open>None\<close>).
\<close>

record request =
  role :: "string option"
  fields_requested :: "field_req list"
  req_min_group_size :: "int option"

record policy =
  policy_id :: string
  match :: "request \<Rightarrow> bool"
  allowed_roles :: "string list"
  action :: string
  policy_constraints :: "constraints option"
  rationale :: string

record policy_result =
  decision :: string
  constraints :: constraints
  result_rationale :: string

text \<open>\<open>f.get("sensitivity", "").upper() == "HIGH"\<close> for some requested field.\<close>

definition match_high :: "request \<Rightarrow> bool" where
  "match_high req =
     list_ex (\<lambda>f. upper (case sensitivity f of None \<Rightarrow> [] | Some s \<Rightarrow> s) = ''HIGH'')
       (fields_requested req)"

text \<open>\<open>req.get("privacy", {}).get("min_group_size", 10) < 10\<close>\<close>

definition match_min_group :: "request \<Rightarrow> bool" where
  "match_min_group req = ((case req_min_group_size req of None \<Rightarrow> 10 | Some n \<Rightarrow> n) < 10)"

definition deny_narrative_fields :: policy where
  "deny_narrative_fields =
     \<lparr>policy_id = ''deny_narrative_fields'',
      match = match_high,
      allowed_roles = [''compliance_officer'', ''admin''],
      action = ''DENY'',
      policy_constraints = None,
      rationale = ''High-sensitivity narrative fields are restricted. Only compliance_officer or admin roles may access them.''\<rparr>"

definition min_aggregation :: policy where
  "min_aggregation =
     \<lparr>policy_id = ''min_aggregation'',
      match = match_min_group,
      allowed_roles = [],
      action = ''ALLOW_WITH_CONSTRAINTS'',
      policy_constraints = Some [(''min_group_size'', 10)],
      rationale = ''Minimum group size of 10 enforced for privacy.''\<rparr>"

definition DEFAULT_POLICIES :: "policy list" where
  "DEFAULT_POLICIES = [deny_narrative_fields, min_aggregation]"

definition user_role_of :: "request \<Rightarrow> string" where
  "user_role_of req = (case role req of None \<Rightarrow> ''analyst'' | Some r \<Rightarrow> r)"

text \<open>
  The loop of \<open>policy_eval\<close> over the rule list. A matching rule whose action is neither
  of the two known ones returns nothing, and the loop goes on.
\<close>

fun eval_policies :: "request \<Rightarrow> string \<Rightarrow> policy list \<Rightarrow> policy_result" where
  "eval_policies req user_role [] =
     \<lparr>decision = ''ALLOW'', constraints = [],
      result_rationale = ''Request complies with all policies.''\<rparr>"
| "eval_policies req user_role (p # ps) =
     (if match p req then
        (if user_role \<in> set (allowed_roles p) then eval_policies req user_role ps
         else if action p = ''DENY'' then
           \<lparr>decision = ''DENY'', constraints = [], result_rationale = rationale p\<rparr>
         else if action p = ''ALLOW_WITH_CONSTRAINTS'' then
           \<lparr>decision = ''ALLOW_WITH_CONSTRAINTS'',
            constraints = (case policy_constraints p of None \<Rightarrow> [] | Some c \<Rightarrow> c),
            result_rationale = rationale p\<rparr>
         else eval_policies req user_role ps)
      else eval_policies req user_role ps)"

definition policy_eval :: "request \<Rightarrow> policy list option \<Rightarrow> policy_result" where
  "policy_eval request_json policies =
     eval_policies request_json (user_role_of request_json)
       (case policies of None \<Rightarrow> DEFAULT_POLICIES | Some ps \<Rightarrow> ps)"

section \<open>Intent parser (src/dsl/parser.py)\<close>

record time_range =
  tr_start :: "string option"
  tr_end :: "string option"
  grain :: "string option"

record filter_item =
  f_field :: string
  f_op :: string
  f_value :: string

record sort_item =
  s_field :: string
  s_direction :: "string option"

text \<open>
  The DSL plan. A key that the compiler reads with a default (\<open>limit\<close>,
  \<open>privacy.min_group_size\<close>) is an option, \<open>None\<close> when the key is absent; an absent
  list-valued key reads as the empty list.
\<close>

record dsl_plan =
  intent :: string
  metric_ids :: "string list"
  dimensions :: "string list"
  filters :: "filter_item list"
  time_range :: time_range
  sort_by :: "sort_item list"
  limit :: "int option"
  privacy_min_group_size :: "int option"
  export_format :: string

text \<open>The parser's output: \<open>{"dsl": ..., "fields_requested": ...}\<close>.\<close>

record parsed_plan =
  dsl :: dsl_plan
  plan_fields_requested :: "field_req list"

definition detect_intent :: "string \<Rightarrow> string" where
  "detect_intent query =
     (let q = lower query in
      if list_ex (\<lambda>w. sublist w q) [''chart'', ''trend'', ''plot'', ''graph'', ''visuali'']
      then ''chart''
      else if list_ex (\<lambda>w. sublist w q)
                [''table'', ''list'', ''export'', ''break down'', ''breakdown'']
      then ''table''
      else ''analysis'')"

definition detect_metrics :: "string \<Rightarrow> string list" where
  "detect_metrics query =
     (let q = lower query;
          metrics =
            (if sublist ''net income'' q then [''net_income''] else []) @
            (if sublist ''complaint'' q then [''complaint_volume''] else []) @
            (if sublist ''asset'' q then [''total_assets''] else []) @
            (if sublist ''deposit'' q then [''total_deposits''] else []) @
            (if sublist ''npa'' q \<or> sublist ''non-performing'' q then [''npa_ratio''] else []) @
            (if sublist ''tier'' q \<or> sublist ''capital'' q then [''tier1_ratio''] else []) @
            (if sublist ''narrative'' q then [''complaint_narrative''] else [])
      in if metrics = [] then [''complaint_volume''] else metrics)"

definition detect_dimensions :: "string \<Rightarrow> string list" where
  "detect_dimensions query =
     (let q = lower query;
          dims =
            (if sublist ''state'' q then [''state''] else []) @
            (if sublist ''product'' q then [''product''] else []) @
            (if sublist ''company'' q \<or> sublist ''bank'' q then [''bank_name''] else []) @
            (if sublist ''quarter'' q \<or> sublist ''quarterly'' q then [''quarter''] else [])
      in if dims = [] then [''quarter''] else dims)"

text \<open>
  \<open>re.search(r"since (\d{4})", q)\<close>: the four digits after the leftmost \<open>since\<close> that is
  followed by a blank and four digits.
\<close>

definition match_since :: "string \<Rightarrow> string option" where
  "match_since s =
     (let ds = take 4 (drop 6 s) in
      if prefix ''since '' s \<and> length ds = 4 \<and> list_all is_digit ds then Some ds else None)"

fun search_since :: "string \<Rightarrow> string option" where
  "search_since [] = None"
| "search_since (c # cs) =
     (case match_since (c # cs) of Some ds \<Rightarrow> Some ds | None \<Rightarrow> search_since cs)"

text \<open>
  \<open>re.search(r"last (\d+) months?", q)\<close>: the digits of the leftmost \<open>last\<close> that is
  followed by a blank, a run of digits and \<open> month\<close>. The run is the longest one: a
  shorter run is followed by a digit, where the pattern wants a blank.
\<close>

definition match_last_months :: "string \<Rightarrow> string option" where
  "match_last_months s =
     (let r = drop 5 s; ds = takeWhile is_digit r; rest = dropWhile is_digit r in
      if prefix ''last '' s \<and> ds \<noteq> [] \<and> prefix '' month'' rest then Some ds else None)"

fun search_last_months :: "string \<Rightarrow> string option" where
  "search_last_months [] = None"
| "search_last_months (c # cs) =
     (case match_last_months (c # cs) of Some ds \<Rightarrow> Some ds | None \<Rightarrow> search_last_months cs)"

text \<open>
  The calendar of the run: \<open>date.today().isoformat()\<close>, and
  \<open>(today - timedelta(days=n)).isoformat()\<close>, which is \<open>None\<close> when the library raises
  OverflowError (more days than a timedelta holds, or a date before year 1).
\<close>

record calendar =
  today_iso :: string
  days_ago_iso :: "nat \<Rightarrow> string option"

definition detect_time_range :: "calendar \<Rightarrow> string \<Rightarrow> error + time_range" where
  "detect_time_range cal query =
     (let q = lower query in
      case search_since q of
        Some y \<Rightarrow>
          Inr \<lparr>tr_start = Some (y @ ''-01-01''), tr_end = Some (today_iso cal),
               grain = Some ''quarter''\<rparr>
      | None \<Rightarrow>
         (case search_last_months q of
            Some ds \<Rightarrow>
              (case days_ago_iso cal (nat_of_digits ds * 30) of
                 None \<Rightarrow> Inl OverflowError
               | Some start \<Rightarrow>
                   Inr \<lparr>tr_start = Some start, tr_end = Some (today_iso cal),
                        grain = Some ''month''\<rparr>)
          | None \<Rightarrow>
              Inr \<lparr>tr_start = Some ''2020-01-01'', tr_end = Some (today_iso cal),
                   grain = Some ''quarter''\<rparr>))"

text \<open>
  \<open>re.search(r"\b([A-Z]{2})\b", query)\<close> on the query as typed: the leftmost pair of
  capital letters with no word character on either side. \<open>prev\<close> is the character before
  the position tried.
\<close>

definition is_upper_letter :: "char \<Rightarrow> bool" where
  "is_upper_letter c = (c \<in> set ascii_upper)"

definition is_word_char :: "char \<Rightarrow> bool" where
  "is_word_char c = (c \<in> set ascii_upper \<or> c \<in> set ascii_lower \<or> is_digit c \<or> c = CHR ''_'')"

fun search_state :: "char option \<Rightarrow> string \<Rightarrow> string option" where
  "search_state prev [] = None"
| "search_state prev [c] = None"
| "search_state prev (c # d # rest) =
     (if (case prev of None \<Rightarrow> True | Some b \<Rightarrow> \<not> is_word_char b)
         \<and> is_upper_letter c \<and> is_upper_letter d
         \<and> (case rest of [] \<Rightarrow> True | e # _ \<Rightarrow> \<not> is_word_char e)
      then Some [c, d]
      else search_state (Some c) (d # rest))"

definition detect_filters :: "string \<Rightarrow> filter_item list" where
  "detect_filters query =
     (case search_state None query of
        None \<Rightarrow> []
      | Some st \<Rightarrow>
          if st \<in> set [''CA'', ''TX'', ''NY'', ''FL'', ''IL'', ''OH'', ''PA'', ''GA'', ''NC'', ''MI'']
          then [\<lparr>f_field = ''state'', f_op = ''='', f_value = st\<rparr>]
          else [])"

definition detect_export :: "string \<Rightarrow> string" where
  "detect_export query =
     (let q = lower query in
      if sublist ''export'' q \<or> sublist ''csv'' q then ''csv'' else ''none'')"

definition needs_narrative :: "string \<Rightarrow> field_req list" where
  "needs_narrative query =
     (let q = lower query in
      if sublist ''narrative'' q
      then [\<lparr>field_name = Some ''consumer_complaint_narrative'', sensitivity = Some ''HIGH''\<rparr>]
      else [])"

text \<open>
  \<open>parse_nl_to_dsl\<close>. The only step that can raise is the date arithmetic of the time
  range. \<open>_detect_dimensions(query)[0]\<close> reads a list that is never empty.
\<close>

definition parse_nl_to_dsl :: "calendar \<Rightarrow> string \<Rightarrow> error + parsed_plan" where
  "parse_nl_to_dsl cal query =
     (case detect_time_range cal query of
        Inl e \<Rightarrow> Inl e
      | Inr tr \<Rightarrow>
          Inr \<lparr>dsl =
                 \<lparr>intent = detect_intent query,
                  metric_ids = detect_metrics query,
                  dimensions = detect_dimensions query,
                  filters = detect_filters query,
                  time_range = tr,
                  sort_by = [\<lparr>s_field = hd (detect_dimensions query),
                              s_direction = Some ''asc''\<rparr>],
                  limit = Some 200,
                  privacy_min_group_size = Some 10,
                  export_format = detect_export query\<rparr>,
               plan_fields_requested = needs_narrative query\<rparr>)"

section \<open>SQL compiler (src/dsl/compiler.py)\<close>

record metric_meta =
  m_table :: string
  m_expression :: string
  m_alias :: string

definition METRIC_SQL :: "(string \<times> metric_meta) list" where
  "METRIC_SQL =
     [(''net_income'',
         \<lparr>m_table = ''dp_call_reports'', m_expression = ''SUM(net_income)'',
          m_alias = ''total_net_income''\<rparr>),
      (''complaint_volume'',
         \<lparr>m_table = ''dp_complaints'', m_expression = ''COUNT(*)'',
          m_alias = ''complaint_count''\<rparr>),
      (''total_assets'',
         \<lparr>m_table = ''dp_call_reports'', m_expression = ''SUM(assets)'',
          m_alias = ''total_assets''\<rparr>),
      (''total_deposits'',
         \<lparr>m_table = ''dp_call_reports'', m_expression = ''SUM(deposits)'',
          m_alias = ''total_deposits''\<rparr>),
      (''npa_ratio'',
         \<lparr>m_table = ''dp_call_reports'', m_expression = ''AVG(npa)'',
          m_alias = ''avg_npa''\<rparr>),
      (''tier1_ratio'',
         \<lparr>m_table = ''dp_call_reports'', m_expression = ''AVG(tier1_ratio)'',
          m_alias = ''avg_tier1_ratio''\<rparr>),
      (''complaint_narrative'',
         \<lparr>m_table = ''dp_complaints'', m_expression = ''consumer_complaint_narrative'',
          m_alias = ''narrative''\<rparr>)]"

definition DIMENSION_COL :: "(string \<times> string) list" where
  "DIMENSION_COL =
     [(''quarter'', ''quarter''), (''state'', ''state''), (''product'', ''product''),
      (''bank_name'', ''bank_name''), (''date_received'', ''date_received''),
      (''company'', ''company''), (''channel'', ''channel'')]"

definition DIMENSION_TABLE_OVERRIDE :: "(string \<times> (string \<times> string) list) list" where
  "DIMENSION_TABLE_OVERRIDE =
     [(''dp_complaints'',
        [(''quarter'',
          ''CONCAT(EXTRACT(YEAR FROM date_received), '' @ [CHR 0x27] @ ''-Q'' @ [CHR 0x27] @
          '', EXTRACT(QUARTER FROM date_received))'')])]"

text \<open>\<open>d.get(k, default)\<close> on an association list.\<close>

definition get_default :: "('k \<times> 'v) list \<Rightarrow> 'k \<Rightarrow> 'v \<Rightarrow> 'v" where
  "get_default d k v = (case map_of d k of None \<Rightarrow> v | Some x \<Rightarrow> x)"

text \<open>The argument of the compiler: the parser's output, or a bare plan
  (\<open>dsl.get("dsl", dsl)\<close>).\<close>

datatype compile_input = Wrapped parsed_plan | Bare dsl_plan

fun unwrap :: "compile_input \<Rightarrow> dsl_plan" where
  "unwrap (Wrapped p) = dsl p"
| "unwrap (Bare p) = p"

text \<open>
  \<open>(constraints or {}).get("min_group_size", plan.get("privacy", {}).get("min_group_size", 10))\<close>
\<close>

definition effective_min_group :: "dsl_plan \<Rightarrow> constraints option \<Rightarrow> int" where
  "effective_min_group plan cs =
     get_default (case cs of None \<Rightarrow> [] | Some c \<Rightarrow> c) ''min_group_size''
       (case privacy_min_group_size plan of None \<Rightarrow> 10 | Some n \<Rightarrow> n)"

definition dim_expr :: "(string \<times> string) list \<Rightarrow> string \<Rightarrow> string" where
  "dim_expr overrides d =
     (case map_of overrides d of Some e \<Rightarrow> e | None \<Rightarrow> get_default DIMENSION_COL d d)"

definition dim_alias :: "(string \<times> string) list \<Rightarrow> string \<Rightarrow> string" where
  "dim_alias overrides d =
     (case map_of overrides d of Some e \<Rightarrow> d | None \<Rightarrow> get_default DIMENSION_COL d d)"

definition select_parts :: "(string \<times> string) list \<Rightarrow> string list \<Rightarrow> string list \<Rightarrow> string list" where
  "select_parts overrides dims metrics =
     map (\<lambda>d. case map_of overrides d of
                 Some e \<Rightarrow> dim_expr overrides d @ '' AS '' @ d
               | None \<Rightarrow> dim_expr overrides d) dims
     @ concat (map (\<lambda>m. case map_of METRIC_SQL m of
                           Some info \<Rightarrow> [m_expression info @ '' AS '' @ m_alias info]
                         | None \<Rightarrow> []) metrics)"

definition quoted :: "string \<Rightarrow> string" where
  "quoted s = [CHR 0x27] @ s @ [CHR 0x27]"

text \<open>A value read with \<open>.get(k)\<close> and tested for truth: present and not the empty string.\<close>

definition truthy :: "string option \<Rightarrow> bool" where
  "truthy v = (case v of None \<Rightarrow> False | Some s \<Rightarrow> s \<noteq> [])"

definition where_parts :: "string \<Rightarrow> time_range \<Rightarrow> filter_item list \<Rightarrow> string list" where
  "where_parts table tr fs =
     (let date_col = (if table = ''dp_call_reports'' then ''quarter'' else ''date_received'') in
      (if truthy (tr_start tr) then [date_col @ '' >= '' @ quoted (the (tr_start tr))] else []) @
      (if truthy (tr_end tr) then [date_col @ '' <= '' @ quoted (the (tr_end tr))] else []) @
      map (\<lambda>f. f_field f @ '' '' @ f_op f @ '' '' @ quoted (f_value f)) fs)"

definition order_parts :: "(string \<times> string) list \<Rightarrow> sort_item list \<Rightarrow> string list" where
  "order_parts overrides ss =
     map (\<lambda>s. dim_alias overrides (s_field s) @ '' '' @
               upper (case s_direction s of None \<Rightarrow> ''asc'' | Some d \<Rightarrow> d)) ss"

text \<open>The clauses the compiler computes before it assembles the text.\<close>

record sql_parts =
  sp_select :: "string list"
  sp_table :: string
  sp_where :: "string list"
  sp_group_by :: string
  sp_having :: string
  sp_order_by :: string
  sp_limit :: int

definition build_parts :: "dsl_plan \<Rightarrow> constraints option \<Rightarrow> error + sql_parts" where
  "build_parts plan cs =
     (let metrics = metric_ids plan;
          dims = dimensions plan;
          min_group = effective_min_group plan cs in
      if metrics = [] then Inl (ValueError ''No metrics specified in DSL plan'')
      else
        (case map_of METRIC_SQL (hd metrics) of
           None \<Rightarrow> Inl (ValueError (''Unknown metric: '' @ hd metrics))
         | Some meta \<Rightarrow>
            (let table = m_table meta;
                 overrides = get_default DIMENSION_TABLE_OVERRIDE table [];
                 group_by = join '', '' (map (dim_expr overrides) dims);
                 needs_having = (group_by \<noteq> [] \<and> min_group \<noteq> 0 \<and> table = ''dp_complaints'')
             in Inr \<lparr>sp_select = select_parts overrides dims metrics,
                     sp_table = table,
                     sp_where = where_parts table (time_range plan) (filters plan),
                     sp_group_by = group_by,
                     sp_having =
                       (if needs_having then ''HAVING COUNT(*) >= '' @ str_of_int min_group
                        else []),
                     sp_order_by = join '', '' (order_parts overrides (sort_by plan)),
                     sp_limit = (case limit plan of None \<Rightarrow> 200 | Some n \<Rightarrow> n)\<rparr>)))"

definition assemble :: "sql_parts \<Rightarrow> string" where
  "assemble ps =
     ''SELECT '' @ join '', '' (sp_select ps) @ '' FROM '' @ sp_table ps
     @ (if sp_where ps \<noteq> [] then '' WHERE '' @ join '' AND '' (sp_where ps) else [])
     @ (if sp_group_by ps \<noteq> [] then '' GROUP BY '' @ sp_group_by ps else [])
     @ (if sp_having ps \<noteq> [] then '' '' @ sp_having ps else [])
     @ (if sp_order_by ps \<noteq> [] then '' ORDER BY '' @ sp_order_by ps else [])
     @ (if sp_limit ps \<noteq> 0 then '' LIMIT '' @ str_of_int (sp_limit ps) else [])"

text \<open>
  What \<open>sqlglot.parse(sql, read="duckdb")\<close> does with a text: it returns a list of
  statements (here its length), or raises ParseError, or raises another error of the
  library, which the compiler does not catch. The library is a parameter of the model.
\<close>

datatype sqlglot_result = Statements nat | ParseError string | OtherError string

definition validate :: "(string \<Rightarrow> sqlglot_result) \<Rightarrow> string \<Rightarrow> error + string" where
  "validate sqlglot_parse sql =
     (case sqlglot_parse sql of
        Statements n \<Rightarrow>
          if n = 0 then Inl (ValueError ''sqlglot returned empty parse'') else Inr sql
      | ParseError msg \<Rightarrow> Inl (ValueError (''Generated SQL failed validation: '' @ msg))
      | OtherError msg \<Rightarrow> Inl (TokenError msg))"

definition compile_dsl_to_sql ::
  "(string \<Rightarrow> sqlglot_result) \<Rightarrow> compile_input \<Rightarrow> constraints option \<Rightarrow> error + string" where
  "compile_dsl_to_sql sqlglot_parse inp cs =
     (case build_parts (unwrap inp) cs of
        Inl e \<Rightarrow> Inl e
      | Inr ps \<Rightarrow> validate sqlglot_parse (assemble ps))"

section \<open>Metrics catalog (src/catalog/metrics_catalog.py)\<close>

text \<open>
  The catalog as \<open>yaml.safe_load\<close> returns it, with the keys the code reads. A key read
  with \<open>.get(k, default)\<close> or tested with \<open>in\<close> is an option.
\<close>

record data_product =
  dp_name :: "string option"
  dp_description :: "string option"
  dp_dimensions :: "string list"
  dp_metrics :: "string list"
  dp_version :: "string option"
  dp_freshness :: "string option"

record catalog_metric =
  cm_name :: "string option"
  cm_id :: "string option"
  cm_description :: "string option"
  cm_data_product :: "string option"

record catalog =
  cat_data_products :: "data_product list"
  cat_metrics :: "catalog_metric list"

datatype search_hit = DataProduct data_product | Metric catalog_metric

definition is_space :: "char \<Rightarrow> bool" where
  "is_space c =
     (c \<in> set [CHR '' '', CHR 0x09, CHR 0x0A, CHR 0x0B, CHR 0x0C, CHR 0x0D,
                CHR 0x1C, CHR 0x1D, CHR 0x1E, CHR 0x1F])"

text \<open>\<open>s.split()\<close>: the maximal runs of characters that are not white space.\<close>

fun split_acc :: "string \<Rightarrow> string \<Rightarrow> string list" where
  "split_acc cur [] = (if cur = [] then [] else [cur])"
| "split_acc cur (c # cs) =
     (if is_space c then (if cur = [] then split_acc [] cs else cur # split_acc [] cs)
      else split_acc (cur @ [c]) cs)"

definition split_ws :: "string \<Rightarrow> string list" where
  "split_ws s = split_acc [] s"

definition or_empty :: "string option \<Rightarrow> string" where
  "or_empty v = (case v of None \<Rightarrow> [] | Some s \<Rightarrow> s)"

definition metadata_search :: "string \<Rightarrow> catalog \<Rightarrow> search_hit list" where
  "metadata_search query cat =
     (let tokens = split_ws (lower query) in
      map DataProduct
        (filter (\<lambda>dp. let text = lower (join '' '' [or_empty (dp_name dp), or_empty (dp_description dp),
                                                     join '' '' (dp_dimensions dp),
                                                     join '' '' (dp_metrics dp)])
                       in list_ex (\<lambda>t. sublist t text) tokens)
                (cat_data_products cat))
      @ map Metric
        (filter (\<lambda>m. let text = lower (join '' '' [or_empty (cm_id m), or_empty (cm_description m),
                                                    or_empty (cm_data_product m)])
                      in list_ex (\<lambda>t. sublist t text) tokens)
                (cat_metrics cat)))"

section \<open>Agent pipeline (src/agent/pipeline.py)\<close>

record quality_record =
  q_dataset :: string
  q_version :: string
  q_freshness :: string
  tests_passed :: bool

text \<open>
  The loop of \<open>quality_status\<close> over the data products: \<open>dp["name"]\<close> raises KeyError on a
  product without a name.
\<close>

fun quality_loop :: "string list \<Rightarrow> data_product list \<Rightarrow> error + quality_record list" where
  "quality_loop dataset_ids [] = Inr []"
| "quality_loop dataset_ids (dp # dps) =
     (case dp_name dp of
        None \<Rightarrow> Inl (KeyError ''name'')
      | Some n \<Rightarrow>
         (case quality_loop dataset_ids dps of
            Inl e \<Rightarrow> Inl e
          | Inr rest \<Rightarrow>
              Inr ((if n \<in> set dataset_ids
                    then [\<lparr>q_dataset = n,
                           q_version = (case dp_version dp of None \<Rightarrow> ''unknown'' | Some v \<Rightarrow> v),
                           q_freshness = (case dp_freshness dp of None \<Rightarrow> ''unknown'' | Some v \<Rightarrow> v),
                           tests_passed = True\<rparr>]
                    else []) @ rest)))"

definition quality_status :: "string list \<Rightarrow> catalog \<Rightarrow> error + quality_record list" where
  "quality_status dataset_ids cat = quality_loop dataset_ids (cat_data_products cat)"

record evidence_pack =
  evidence_pack_id :: string
  timestamp :: string
  ep_dsl_plan :: dsl_plan
  ep_policy_decision :: policy_result
  sql_hash :: string
  ep_sql :: string
  datasets_quality :: "quality_record list"
  result_row_count :: nat

text \<open>
  A value of a result row. A Python bool is an int, so the test
  \<open>isinstance(v, (int, float))\<close> holds of booleans, integers and floats. Floats are taken
  as exact rationals: rounding, infinities and NaN are outside the model.
\<close>

datatype cell = CNull | CBool bool | CInt int | CFloat rat | CStr string

fun is_numeric :: "cell \<Rightarrow> bool" where
  "is_numeric (CBool b) = True"
| "is_numeric (CInt i) = True"
| "is_numeric (CFloat r) = True"
| "is_numeric v = False"

fun num_val :: "cell \<Rightarrow> rat" where
  "num_val (CBool b) = (if b then 1 else 0)"
| "num_val (CInt i) = of_int i"
| "num_val (CFloat r) = r"
| "num_val v = 0"

text \<open>
  What the run reads from outside: the calendar, the SQL parser, the database
  (\<open>con.execute(sql)\<close> with the column names and the rows, or the text of the exception),
  the catalog file (or the error of reading it), and the identifier, clock and digest the
  evidence pack uses.
\<close>

record env =
  e_cal :: calendar
  e_sqlglot :: "string \<Rightarrow> sqlglot_result"
  e_execute :: "string \<Rightarrow> string + (string list \<times> cell list list)"
  e_load_catalog :: "error + catalog"
  e_uuid4 :: string
  e_utc_now_iso :: string
  e_sha256_hex :: "string \<Rightarrow> string"

definition sql_hash_of :: "env \<Rightarrow> string \<Rightarrow> string" where
  "sql_hash_of e sql = take 16 (e_sha256_hex e sql)"

definition make_evidence_pack ::
  "env \<Rightarrow> dsl_plan \<Rightarrow> policy_result \<Rightarrow> string \<Rightarrow> quality_record list \<Rightarrow> nat \<Rightarrow> evidence_pack" where
  "make_evidence_pack e plan policy_res sql quality row_count =
     \<lparr>evidence_pack_id = e_uuid4 e,
      timestamp = e_utc_now_iso e,
      ep_dsl_plan = plan,
      ep_policy_decision = policy_res,
      sql_hash = sql_hash_of e sql,
      ep_sql = sql,
      datasets_quality = quality,
      result_row_count = row_count\<rparr>"

text \<open>\<open>xs.index(x)\<close>: the first position of \<open>x\<close>, \<open>None\<close> for ValueError.\<close>

fun index_of :: "'a list \<Rightarrow> 'a \<Rightarrow> nat option" where
  "index_of [] x = None"
| "index_of (y # ys) x = (if x = y then Some 0 else map_option Suc (index_of ys x))"

text \<open>\<open>row[i]\<close> for an index that is not negative.\<close>

definition row_get :: "cell list \<Rightarrow> nat \<Rightarrow> error + cell" where
  "row_get row i = (if i < length row then Inr (row ! i) else Inl IndexError)"

text \<open>\<open>isinstance(row[columns.index(c)], (int, float))\<close>\<close>

definition cell_is_numeric :: "string list \<Rightarrow> cell list \<Rightarrow> string \<Rightarrow> error + bool" where
  "cell_is_numeric columns row c =
     (case index_of columns c of
        None \<Rightarrow> Inl (ValueError ''not in list'')
      | Some i \<Rightarrow> (case row_get row i of Inl e \<Rightarrow> Inl e | Inr v \<Rightarrow> Inr (is_numeric v)))"

text \<open>The comprehension of \<open>numeric_cols\<close> for a first row \<open>r0\<close>.\<close>

fun numeric_cols_loop :: "string list \<Rightarrow> cell list \<Rightarrow> string list \<Rightarrow> error + string list" where
  "numeric_cols_loop columns r0 [] = Inr []"
| "numeric_cols_loop columns r0 (c # cs) =
     (case cell_is_numeric columns r0 c of
        Inl e \<Rightarrow> Inl e
      | Inr b \<Rightarrow>
         (case numeric_cols_loop columns r0 cs of
            Inl e \<Rightarrow> Inl e
          | Inr rest \<Rightarrow> Inr (if b then c # rest else rest)))"

text \<open>\<open>rows[:1]\<close> is the first row, if there is one: with no row, no column is numeric.\<close>

definition numeric_cols :: "string list \<Rightarrow> cell list list \<Rightarrow> error + string list" where
  "numeric_cols columns rows =
     (case rows of [] \<Rightarrow> Inr [] | r0 # rest \<Rightarrow> numeric_cols_loop columns r0 columns)"

text \<open>
  The column the outlier scan reads, \<open>col_idx\<close>: \<open>None\<close> when the scan does not run.
\<close>

definition metric_column :: "string list \<Rightarrow> cell list list \<Rightarrow> error + nat option" where
  "metric_column columns rows =
     (case numeric_cols columns rows of
        Inl e \<Rightarrow> Inl e
      | Inr ncs \<Rightarrow>
          if ncs \<noteq> [] \<and> 4 \<le> length rows
          then (case index_of columns (last ncs) of
                  None \<Rightarrow> Inl (ValueError ''not in list'')
                | Some i \<Rightarrow> Inr (Some i))
          else Inr None)"

text \<open>\<open>row[col_idx]\<close> for every row.\<close>

fun column_cells :: "nat \<Rightarrow> cell list list \<Rightarrow> error + cell list" where
  "column_cells i [] = Inr []"
| "column_cells i (r # rs) =
     (case row_get r i of
        Inl e \<Rightarrow> Inl e
      | Inr v \<Rightarrow> (case column_cells i rs of Inl e \<Rightarrow> Inl e | Inr vs \<Rightarrow> Inr (v # vs)))"

text \<open>The scan of one column: the quartiles by rank and the rows outside the fences.\<close>

definition iqr_outliers :: "cell list \<Rightarrow> error + nat list" where
  "iqr_outliers col =
     (let values = sort (map num_val (filter is_numeric col)) in
      if values = [] then Inl IndexError
      else
        (let q1 = values ! (length values div 4);
             q3 = values ! (3 * length values div 4);
             iqr = q3 - q1;
             lo = q1 - 3 / 2 * iqr;
             hi = q3 + 3 / 2 * iqr
         in Inr (filter (\<lambda>i. is_numeric (col ! i) \<and> (num_val (col ! i) < lo \<or> hi < num_val (col ! i)))
                   [0..<length col])))"

definition detect_outliers :: "string list \<Rightarrow> cell list list \<Rightarrow> error + nat list" where
  "detect_outliers columns rows =
     (case metric_column columns rows of
        Inl e \<Rightarrow> Inl e
      | Inr None \<Rightarrow> Inr []
      | Inr (Some col_idx) \<Rightarrow>
          (case column_cells col_idx rows of Inl e \<Rightarrow> Inl e | Inr col \<Rightarrow> iqr_outliers col))"

text \<open>\<open>json.dumps\<close> of a constraints dictionary, whose keys are plain identifiers.\<close>

definition json_dumps_constraints :: "constraints \<Rightarrow> string" where
  "json_dumps_constraints cs =
     ''{'' @ join '', '' (map (\<lambda>(k, v). [CHR 0x22] @ k @ [CHR 0x22] @ '': '' @ str_of_int v) cs) @ ''}''"

definition build_explanation :: "dsl_plan \<Rightarrow> nat \<Rightarrow> nat list \<Rightarrow> policy_result \<Rightarrow> string" where
  "build_explanation plan row_count outliers policy_res =
     (let tr = time_range plan in
      join '' ''
        ([''Produced a **'' @ intent plan @ ''** for metric(s) ['' @ join '', '' (metric_ids plan)
            @ ''] grouped by ['' @ join '', '' (dimensions plan) @ ''].'',
          ''Time range: '' @ (case tr_start tr of None \<Rightarrow> ''?'' | Some s \<Rightarrow> s) @ '' to ''
            @ (case tr_end tr of None \<Rightarrow> ''?'' | Some s \<Rightarrow> s) @ '' (''
            @ (case grain tr of None \<Rightarrow> ''quarter'' | Some g \<Rightarrow> g) @ '').'',
          ''Returned **'' @ str_of_nat row_count @ ''** rows.'']
         @ (if outliers \<noteq> []
            then [''**'' @ str_of_nat (length outliers) @ '' outlier(s)** detected via IQR method.'']
            else [])
         @ (if decision policy_res = ''ALLOW_WITH_CONSTRAINTS''
            then [''Policy applied constraints: '' @ json_dumps_constraints (constraints policy_res) @ ''.'']
            else [])))"

text \<open>
  The value of a key of the response. \<open>dict(zip(columns, row))\<close> keeps one entry for each
  column name, the value of its last occurrence.
\<close>

datatype rvalue =
    VStr string
  | VPlan dsl_plan
  | VPolicy policy_result
  | VColumns "string list"
  | VData "(string \<times> cell) list list"
  | VIndices "nat list"
  | VEvidence evidence_pack

type_synonym response = "(string \<times> rvalue) list"

definition dict_of_pairs :: "('k \<times> 'v) list \<Rightarrow> ('k \<times> 'v) list" where
  "dict_of_pairs ps = foldl (\<lambda>d (k, v). AList.update k v d) [] ps"

definition policy_request_of :: "parsed_plan \<Rightarrow> string \<Rightarrow> request" where
  "policy_request_of plan user_role =
     \<lparr>role = Some user_role,
      fields_requested = plan_fields_requested plan,
      req_min_group_size = privacy_min_group_size (dsl plan)\<rparr>"

definition denied_response :: "parsed_plan \<Rightarrow> policy_result \<Rightarrow> response" where
  "denied_response plan policy_res =
     [(''status'', VStr ''denied''),
      (''policy'', VPolicy policy_res),
      (''explanation'', VStr (result_rationale policy_res)),
      (''alternative'', VStr ''Try a query without narrative fields, or request access elevation.''),
      (''dsl'', VPlan (dsl plan))]"

definition error_response :: "parsed_plan \<Rightarrow> string \<Rightarrow> string \<Rightarrow> response" where
  "error_response plan msg sql =
     [(''status'', VStr ''error''),
      (''error'', VStr msg),
      (''sql'', VStr sql),
      (''dsl'', VPlan (dsl plan))]"

definition success_response ::
  "parsed_plan \<Rightarrow> policy_result \<Rightarrow> string \<Rightarrow> string list \<Rightarrow> cell list list \<Rightarrow> nat list
     \<Rightarrow> evidence_pack \<Rightarrow> response" where
  "success_response plan policy_res sql columns rows outlier_indices evidence =
     [(''status'', VStr ''success''),
      (''dsl'', VPlan (dsl plan)),
      (''policy'', VPolicy policy_res),
      (''sql'', VStr sql),
      (''columns'', VColumns columns),
      (''data'', VData (map (\<lambda>row. dict_of_pairs (zip columns row)) rows)),
      (''outlier_indices'', VIndices outlier_indices),
      (''evidence_pack'', VEvidence evidence),
      (''explanation'',
         VStr (build_explanation (dsl plan) (length rows) outlier_indices policy_res))]"

text \<open>
  \<open>datasets_used\<close> is a list made from a set: the names without repetition, in an order
  the code does not fix. Only membership in it is ever tested.
\<close>

definition datasets_used_of :: "search_hit list \<Rightarrow> string list" where
  "datasets_used_of meta =
     remdups (concat (map (\<lambda>h. case h of
                                  DataProduct dp \<Rightarrow> (case dp_name dp of None \<Rightarrow> [] | Some n \<Rightarrow> [n])
                                | Metric m \<Rightarrow> (case cm_name m of None \<Rightarrow> [] | Some n \<Rightarrow> [n])) meta))"

text \<open>
  \<open>run_agent\<close>. An \<open>Inl\<close> is an exception that leaves the function; the three responses
  are its three return statements.
\<close>

definition run_agent :: "env \<Rightarrow> string \<Rightarrow> string \<Rightarrow> error + response" where
  "run_agent e query user_role =
     (case parse_nl_to_dsl (e_cal e) query of
        Inl err \<Rightarrow> Inl err
      | Inr plan \<Rightarrow>
        (case e_load_catalog e of
           Inl err \<Rightarrow> Inl err
         | Inr cat \<Rightarrow>
           (let datasets_used = datasets_used_of (metadata_search query cat);
                policy_res = policy_eval (policy_request_of plan user_role) None
            in if decision policy_res = ''DENY'' then Inr (denied_response plan policy_res)
               else
                 (case compile_dsl_to_sql (e_sqlglot e) (Wrapped plan)
                         (Some (constraints policy_res)) of
                    Inl err \<Rightarrow> Inl err
                  | Inr sql \<Rightarrow>
                    (case e_execute e sql of
                       Inl msg \<Rightarrow> Inr (error_response plan msg sql)
                     | Inr (columns, rows) \<Rightarrow>
                       (case quality_status datasets_used cat of
                          Inl err \<Rightarrow> Inl err
                        | Inr quality \<Rightarrow>
                          (case detect_outliers columns rows of
                             Inl err \<Rightarrow> Inl err
                           | Inr outlier_indices \<Rightarrow>
                               Inr (success_response plan policy_res sql columns rows
                                      outlier_indices
                                      (make_evidence_pack e (dsl plan) policy_res sql quality
                                         (length rows))))))))))"

text \<open>
  The column of the specification's wording, to compare with \<open>metric_column\<close>: the last
  column that holds a number in at least one row.
\<close>

definition last_numeric_in_any_row :: "string list \<Rightarrow> cell list list \<Rightarrow> nat option" where
  "last_numeric_in_any_row columns rows =
     (let js = filter (\<lambda>j. list_ex (\<lambda>r. j < length r \<and> is_numeric (r ! j)) rows)
                 [0..<length columns]
      in if js = [] then None else Some (last js))"

section \<open>Inputs for the witnesses and counterexamples\<close>

definition narrative_request :: "string \<Rightarrow> request" where
  "narrative_request r =
     \<lparr>role = Some r,
      fields_requested = [\<lparr>field_name = Some ''consumer_complaint_narrative'', sensitivity = Some ''HIGH''\<rparr>],
      req_min_group_size = Some 5\<rparr>"

definition chart_keywords :: "string list" where
  "chart_keywords = [''chart'', ''trend'', ''plot'', ''graph'', ''visuali'']"

definition table_keywords :: "string list" where
  "table_keywords = [''table'', ''list'', ''export'', ''break down'', ''breakdown'']"

definition degenerate_plan :: dsl_plan where
  "degenerate_plan =
     \<lparr>intent = ''table'', metric_ids = [''complaint_volume''], dimensions = [''''],
      filters = [], time_range = \<lparr>tr_start = None, tr_end = None, grain = None\<rparr>,
      sort_by = [], limit = Some 200, privacy_min_group_size = Some 10,
      export_format = ''none''\<rparr>"

definition complaints_plan :: dsl_plan where
  "complaints_plan =
     \<lparr>intent = ''table'', metric_ids = [''complaint_volume''],
      dimensions = [''product'', ''state''], filters = [],
      time_range = \<lparr>tr_start = Some ''2024-01-01'', tr_end = Some ''2025-01-01'',
                     grain = Some ''month''\<rparr>,
      sort_by = [\<lparr>s_field = ''product'', s_direction = Some ''asc''\<rparr>],
      limit = Some 200, privacy_min_group_size = Some 10, export_format = ''none''\<rparr>"

text \<open>A stand-in for the SQL parser: one statement for every text.\<close>

definition accept_all :: "string \<Rightarrow> sqlglot_result" where
  "accept_all sql = Statements 1"

text \<open>A stand-in for the SQL parser that rejects a text with a closing parenthesis that
  nothing opened, or an opening one left open, and reads one statement otherwise.\<close>

fun balanced :: "nat \<Rightarrow> string \<Rightarrow> bool" where
  "balanced n [] = (n = 0)"
| "balanced n (c # cs) =
     (if c = CHR ''('' then balanced (Suc n) cs
      else if c = CHR '')'' then (case n of 0 \<Rightarrow> False | Suc k \<Rightarrow> balanced k cs)
      else balanced n cs)"

definition paren_parser :: "string \<Rightarrow> sqlglot_result" where
  "paren_parser sql = (if balanced 0 sql then Statements 1 else ParseError ''Invalid expression / Unexpected token'')"

definition stray_paren_plan :: dsl_plan where
  "stray_paren_plan =
     \<lparr>intent = ''table'', metric_ids = [''net_income''], dimensions = [''quarter)''],
      filters = [], time_range = \<lparr>tr_start = None, tr_end = None, grain = None\<rparr>,
      sort_by = [], limit = Some 200, privacy_min_group_size = Some 10,
      export_format = ''none''\<rparr>"

text \<open>A run environment: a fixed day, a parser that accepts, a database with one table
  of six rows, and a catalog with two data products.\<close>

definition demo_rows :: "cell list list" where
  "demo_rows =
     [[CStr ''2024-Q1'', CInt 10], [CStr ''2024-Q2'', CInt 12], [CStr ''2024-Q3'', CInt 11],
      [CStr ''2024-Q4'', CInt 13], [CStr ''2025-Q1'', CInt 12], [CStr ''2025-Q2'', CInt 90]]"

definition demo_catalog :: catalog where
  "demo_catalog =
     \<lparr>cat_data_products =
        [\<lparr>dp_name = Some ''dp_complaints'', dp_description = Some ''Consumer complaints'',
          dp_dimensions = [''product'', ''state''], dp_metrics = [''complaint_volume''],
          dp_version = Some ''1.2.0'', dp_freshness = None\<rparr>,
         \<lparr>dp_name = Some ''dp_call_reports'', dp_description = Some ''Bank call reports'',
          dp_dimensions = [''quarter'', ''bank_name''], dp_metrics = [''net_income''],
          dp_version = None, dp_freshness = Some ''daily''\<rparr>],
      cat_metrics =
        [\<lparr>cm_name = None, cm_id = Some ''net_income'', cm_description = Some ''Net income'',
          cm_data_product = Some ''dp_call_reports''\<rparr>]\<rparr>"

definition demo_env :: env where
  "demo_env =
     \<lparr>e_cal = \<lparr>today_iso = ''2025-06-30'', days_ago_iso = (\<lambda>n. Some ''2024-07-05'')\<rparr>,
      e_sqlglot = accept_all,
      e_execute = (\<lambda>sql. Inr ([''quarter'', ''complaint_count''], demo_rows)),
      e_load_catalog = Inr demo_catalog,
      e_uuid4 = ''00000000-0000-4000-8000-000000000000'',
      e_utc_now_iso = ''2025-06-30T12:00:00+00:00'',
      e_sha256_hex = (\<lambda>s. ''0123456789abcdef0123456789abcdef0123456789abcdef0123456789abcdef'')\<rparr>"

text \<open>A result whose second column is null in the first row and numeric afterwards.\<close>

definition late_numeric_rows :: "cell list list" where
  "late_numeric_rows =
     [[CInt 1, CNull], [CInt 2, CInt 5], [CInt 3, CInt 6], [CInt 4, CInt 5],
      [CInt 5, CInt 6], [CInt 6, CInt 700]]"

section \<open>Policy engine: properties\<close>

lemma upper_HIGH: "upper ''HIGH'' = ''HIGH''"
  by (simp add: upper_def upper_char_def ascii_upper_def ascii_lower_def)

lemma role_simps:
  "match deny_narrative_fields = match_high"
  "allowed_roles deny_narrative_fields = [''compliance_officer'', ''admin'']"
  "action deny_narrative_fields = ''DENY''"
  "match min_aggregation = match_min_group"
  "allowed_roles min_aggregation = []"
  "action min_aggregation = ''ALLOW_WITH_CONSTRAINTS''"
  "policy_constraints min_aggregation = Some [(''min_group_size'', 10)]"
  by (simp_all add: deny_narrative_fields_def min_aggregation_def)

lemma match_highI:
  assumes "f \<in> set (fields_requested req)" "sensitivity f = Some s" "upper s = ''HIGH''"
  shows "match_high req"
  using assms unfolding match_high_def list_ex_iff by force

text \<open>
  C3. A request with at least one field whose sensitivity reads HIGH, evaluated against
  the default rule list. A caller whose role is neither compliance_officer nor admin gets
  DENY, with the rationale of the first rule and empty constraints, whatever the requested
  minimum group size is. For a caller whose role is one of the two the first rule is passed
  over and the evaluation goes on with the rest of the list, the rule min_aggregation: the
  result is ALLOW_WITH_CONSTRAINTS with min_group_size = 10 when the requested minimum
  group size is below 10, and ALLOW otherwise; it is never DENY.
\<close>

theorem policy_eval_high_sensitivity:
  assumes "f \<in> set (fields_requested req)" and "sensitivity f = Some s" and "upper s = ''HIGH''"
  shows "(user_role_of req \<notin> {''compliance_officer'', ''admin''} \<longrightarrow>
           policy_eval req None =
             \<lparr>decision = ''DENY'', constraints = [],
              result_rationale = ''High-sensitivity narrative fields are restricted. Only compliance_officer or admin roles may access them.''\<rparr>)
       \<and> (user_role_of req \<in> {''compliance_officer'', ''admin''} \<longrightarrow>
           policy_eval req None = eval_policies req (user_role_of req) [min_aggregation]
           \<and> (match_min_group req \<longrightarrow>
                policy_eval req None =
                  \<lparr>decision = ''ALLOW_WITH_CONSTRAINTS'', constraints = [(''min_group_size'', 10)],
                   result_rationale = ''Minimum group size of 10 enforced for privacy.''\<rparr>)
           \<and> (\<not> match_min_group req \<longrightarrow>
                policy_eval req None =
                  \<lparr>decision = ''ALLOW'', constraints = [],
                   result_rationale = ''Request complies with all policies.''\<rparr>)
           \<and> decision (policy_eval req None) \<in> {''ALLOW'', ''ALLOW_WITH_CONSTRAINTS''}
           \<and> decision (policy_eval req None) \<noteq> ''DENY'')"
proof -
  have m: "match_high req" using assms by (rule match_highI)
  have rest: "eval_policies req (user_role_of req) [min_aggregation] =
                (if match_min_group req
                 then \<lparr>decision = ''ALLOW_WITH_CONSTRAINTS'', constraints = [(''min_group_size'', 10)],
                       result_rationale = ''Minimum group size of 10 enforced for privacy.''\<rparr>
                 else \<lparr>decision = ''ALLOW'', constraints = [],
                       result_rationale = ''Request complies with all policies.''\<rparr>)"
    by (simp add: role_simps) (simp add: min_aggregation_def)
  have deny: "user_role_of req \<notin> {''compliance_officer'', ''admin''} \<Longrightarrow>
           policy_eval req None =
             \<lparr>decision = ''DENY'', constraints = [],
              result_rationale = ''High-sensitivity narrative fields are restricted. Only compliance_officer or admin roles may access them.''\<rparr>"
    using m by (simp add: policy_eval_def DEFAULT_POLICIES_def role_simps)
       (simp add: deny_narrative_fields_def)
  have cont: "user_role_of req \<in> {''compliance_officer'', ''admin''} \<Longrightarrow>
           policy_eval req None = eval_policies req (user_role_of req) [min_aggregation]"
    using m by (auto simp add: policy_eval_def DEFAULT_POLICIES_def role_simps)
  show ?thesis
  proof (intro conjI impI)
    assume "user_role_of req \<notin> {''compliance_officer'', ''admin''}"
    then show "policy_eval req None =
             \<lparr>decision = ''DENY'', constraints = [],
              result_rationale = ''High-sensitivity narrative fields are restricted. Only compliance_officer or admin roles may access them.''\<rparr>"
      by (rule deny)
  next
    assume r: "user_role_of req \<in> {''compliance_officer'', ''admin''}"
    show "policy_eval req None = eval_policies req (user_role_of req) [min_aggregation]"
      using r by (rule cont)
    show "decision (policy_eval req None) \<in> {''ALLOW'', ''ALLOW_WITH_CONSTRAINTS''}"
      unfolding cont [OF r] rest by simp
    show "decision (policy_eval req None) \<noteq> ''DENY''"
      unfolding cont [OF r] rest by simp
    {
      assume "match_min_group req"
      then show "policy_eval req None =
                  \<lparr>decision = ''ALLOW_WITH_CONSTRAINTS'', constraints = [(''min_group_size'', 10)],
                   result_rationale = ''Minimum group size of 10 enforced for privacy.''\<rparr>"
        unfolding cont [OF r] rest by simp
    }
    {
      assume "\<not> match_min_group req"
      then show "policy_eval req None =
                  \<lparr>decision = ''ALLOW'', constraints = [],
                   result_rationale = ''Request complies with all policies.''\<rparr>"
        unfolding cont [OF r] rest by simp
    }
  qed
qed

text \<open>
  C3, at the narrative request with minimum group size 5: denied for the analyst;
  for the admin the evaluation goes on to min_aggregation and gives ALLOW_WITH_CONSTRAINTS
  with 10; for the compliance officer with minimum group size 10 it gives ALLOW.
\<close>

theorem policy_eval_high_sensitivity_witness:
  "policy_eval (narrative_request ''analyst'') None =
     \<lparr>decision = ''DENY'', constraints = [],
      result_rationale = ''High-sensitivity narrative fields are restricted. Only compliance_officer or admin roles may access them.''\<rparr>
   \<and> policy_eval (narrative_request ''admin'') None =
       eval_policies (narrative_request ''admin'') ''admin'' [min_aggregation]
   \<and> policy_eval (narrative_request ''admin'') None =
       \<lparr>decision = ''ALLOW_WITH_CONSTRAINTS'', constraints = [(''min_group_size'', 10)],
        result_rationale = ''Minimum group size of 10 enforced for privacy.''\<rparr>
   \<and> policy_eval (narrative_request ''compliance_officer'' \<lparr>req_min_group_size := Some 10\<rparr>) None =
       \<lparr>decision = ''ALLOW'', constraints = [],
        result_rationale = ''Request complies with all policies.''\<rparr>"
proof -
  let ?f = "\<lparr>field_name = Some ''consumer_complaint_narrative'', sensitivity = Some ''HIGH''\<rparr>"
  have mem: "?f \<in> set (fields_requested (narrative_request r))" for r
    by (simp add: narrative_request_def)
  have mem': "?f \<in> set (fields_requested (narrative_request r \<lparr>req_min_group_size := Some 10\<rparr>))" for r
    by (simp add: narrative_request_def)
  have sens: "sensitivity ?f = Some ''HIGH''" by simp
  have r1: "user_role_of (narrative_request ''analyst'') \<notin> {''compliance_officer'', ''admin''}"
    by (simp add: narrative_request_def user_role_of_def)
  have r2: "user_role_of (narrative_request ''admin'') \<in> {''compliance_officer'', ''admin''}"
    by (simp add: narrative_request_def user_role_of_def)
  have r3: "user_role_of (narrative_request ''compliance_officer'' \<lparr>req_min_group_size := Some 10\<rparr>)
              \<in> {''compliance_officer'', ''admin''}"
    by (simp add: narrative_request_def user_role_of_def)
  have u2: "user_role_of (narrative_request ''admin'') = ''admin''"
    by (simp add: narrative_request_def user_role_of_def)
  have m2: "match_min_group (narrative_request ''admin'')"
    by (simp add: narrative_request_def match_min_group_def)
  have m3: "\<not> match_min_group (narrative_request ''compliance_officer'' \<lparr>req_min_group_size := Some 10\<rparr>)"
    by (simp add: narrative_request_def match_min_group_def)
  have a: "policy_eval (narrative_request ''analyst'') None =
     \<lparr>decision = ''DENY'', constraints = [],
      result_rationale = ''High-sensitivity narrative fields are restricted. Only compliance_officer or admin roles may access them.''\<rparr>"
    by (rule policy_eval_high_sensitivity [OF mem sens upper_HIGH, THEN conjunct1, rule_format, OF r1])
  note t2 = policy_eval_high_sensitivity [OF mem sens upper_HIGH, THEN conjunct2, rule_format, OF r2]
  have b: "policy_eval (narrative_request ''admin'') None =
       eval_policies (narrative_request ''admin'') ''admin'' [min_aggregation]"
    using t2 [THEN conjunct1] unfolding u2 .
  have c: "policy_eval (narrative_request ''admin'') None =
       \<lparr>decision = ''ALLOW_WITH_CONSTRAINTS'', constraints = [(''min_group_size'', 10)],
        result_rationale = ''Minimum group size of 10 enforced for privacy.''\<rparr>"
    by (rule t2 [THEN conjunct2, THEN conjunct1, rule_format, OF m2])
  note t3 = policy_eval_high_sensitivity [OF mem' sens upper_HIGH, THEN conjunct2, rule_format, OF r3]
  have d: "policy_eval (narrative_request ''compliance_officer'' \<lparr>req_min_group_size := Some 10\<rparr>) None =
       \<lparr>decision = ''ALLOW'', constraints = [],
        result_rationale = ''Request complies with all policies.''\<rparr>"
    by (rule t3 [THEN conjunct2, THEN conjunct2, THEN conjunct1, rule_format, OF m3])
  from a b c d show ?thesis by (intro conjI)
qed

text \<open>
  C7. A request with no field of sensitivity HIGH and a privacy minimum group size below
  10 gets ALLOW_WITH_CONSTRAINTS with the constraint min_group_size = 10 and the privacy
  rationale, for every role.
\<close>

theorem policy_eval_min_group:
  assumes "\<forall>f \<in> set (fields_requested req).
             upper (case sensitivity f of None \<Rightarrow> [] | Some s \<Rightarrow> s) \<noteq> ''HIGH''"
      and "req_min_group_size req = Some n" and "n < 10"
  shows "policy_eval req None =
           \<lparr>decision = ''ALLOW_WITH_CONSTRAINTS'', constraints = [(''min_group_size'', 10)],
            result_rationale = ''Minimum group size of 10 enforced for privacy.''\<rparr>"
proof -
  have "\<not> match_high req" using assms(1) by (simp add: match_high_def list_ex_iff)
  moreover have "match_min_group req" using assms(2,3) by (simp add: match_min_group_def)
  ultimately show ?thesis
    by (simp add: policy_eval_def DEFAULT_POLICIES_def role_simps) (simp add: min_aggregation_def)
qed

text \<open>
  C7, at a request of the admin with minimum group size 5.
\<close>

theorem policy_eval_min_group_witness:
  "policy_eval \<lparr>role = Some ''admin'', fields_requested = [], req_min_group_size = Some 5\<rparr> None =
           \<lparr>decision = ''ALLOW_WITH_CONSTRAINTS'', constraints = [(''min_group_size'', 10)],
            result_rationale = ''Minimum group size of 10 enforced for privacy.''\<rparr>"
  using policy_eval_min_group [of "\<lparr>role = Some ''admin'', fields_requested = [], req_min_group_size = Some 5\<rparr>" 5]
  by simp

section \<open>Intent parser: properties\<close>

text \<open>
  C8, as stated, fails: a query with no keyword of either class has the intent
  analysis, neither chart nor table.
\<close>

theorem detect_intent_analysis_counterexample:
  "\<not> (detect_intent ''How many complaints were received in 2023?'' = ''chart''
      \<or> detect_intent ''How many complaints were received in 2023?'' = ''table'')"
  by code_simp

lemma list_ex_kw: "list_ex (\<lambda>w. sublist w q) ws = (\<exists>w\<in>set ws. sublist w q)"
  by (simp add: list_ex_iff)

text \<open>
  C8, amended. The detected intent is chart, table or analysis: chart when a chart
  keyword occurs in the lower-cased query (also when a table keyword occurs too), table
  when a table keyword and no chart keyword occurs, analysis when no keyword occurs.
\<close>

theorem detect_intent_cases:
  "(detect_intent query = ''chart'' \<or> detect_intent query = ''table''
      \<or> detect_intent query = ''analysis'')
   \<and> ((\<exists>w\<in>set chart_keywords. sublist w (lower query)) \<longrightarrow> detect_intent query = ''chart'')
   \<and> (\<not> (\<exists>w\<in>set chart_keywords. sublist w (lower query)) \<longrightarrow>
        (\<exists>w\<in>set table_keywords. sublist w (lower query)) \<longrightarrow> detect_intent query = ''table'')
   \<and> (\<not> (\<exists>w\<in>set chart_keywords. sublist w (lower query)) \<longrightarrow>
        \<not> (\<exists>w\<in>set table_keywords. sublist w (lower query)) \<longrightarrow>
        detect_intent query = ''analysis'')"
proof -
  have d: "detect_intent query =
     (if \<exists>w\<in>set chart_keywords. sublist w (lower query) then ''chart''
      else if \<exists>w\<in>set table_keywords. sublist w (lower query) then ''table''
      else ''analysis'')"
    unfolding detect_intent_def Let_def list_ex_kw chart_keywords_def table_keywords_def ..
  show ?thesis by (subst (1 2 3 4 5 6) d) simp
qed

lemma chart_and_table_kw:
  "sublist ''chart'' (lower ''Show a chart and a table'')"
  "sublist ''table'' (lower ''Show a chart and a table'')"
  by code_simp+

text \<open>
  C8, amended, at a query with keywords of both classes: chart wins.
\<close>

theorem detect_intent_cases_witness:
  "(\<exists>w\<in>set chart_keywords. sublist w (lower ''Show a chart and a table''))
   \<and> (\<exists>w\<in>set table_keywords. sublist w (lower ''Show a chart and a table''))
   \<and> detect_intent ''Show a chart and a table'' = ''chart''"
proof -
  have "''chart'' \<in> set chart_keywords" by (simp add: chart_keywords_def)
  with chart_and_table_kw(1)
  have c: "\<exists>w\<in>set chart_keywords. sublist w (lower ''Show a chart and a table'')" ..
  have "''table'' \<in> set table_keywords" by (simp add: table_keywords_def)
  with chart_and_table_kw(2)
  have t: "\<exists>w\<in>set table_keywords. sublist w (lower ''Show a chart and a table'')" ..
  from detect_intent_cases [of "''Show a chart and a table''"]
  have imp: "(\<exists>w\<in>set chart_keywords. sublist w (lower ''Show a chart and a table''))
          \<longrightarrow> detect_intent ''Show a chart and a table'' = ''chart''"
    by (elim conjE)
  from imp c have "detect_intent ''Show a chart and a table'' = ''chart''" by (rule mp)
  with c t show ?thesis by (intro conjI)
qed

section \<open>SQL compiler: properties\<close>

lemma join_eq_Nil: "sep \<noteq> [] \<Longrightarrow> (join sep xs = []) = (xs = [] \<or> xs = [[]])"
  by (induction sep xs rule: join.induct) auto

lemma overrides_cases:
  "get_default DIMENSION_TABLE_OVERRIDE table [] =
     (if table = ''dp_complaints''
      then [(''quarter'',
          ''CONCAT(EXTRACT(YEAR FROM date_received), '' @ [CHR 0x27] @ ''-Q'' @ [CHR 0x27] @
          '', EXTRACT(QUARTER FROM date_received))'')]
      else [])"
  by (simp add: get_default_def DIMENSION_TABLE_OVERRIDE_def)

lemma DIMENSION_COL_id: "get_default DIMENSION_COL d d = d"
  by (simp add: get_default_def DIMENSION_COL_def)

lemma dim_expr_eq_Nil:
  "(dim_expr (get_default DIMENSION_TABLE_OVERRIDE table []) d = []) = (d = [])"
  unfolding overrides_cases dim_expr_def DIMENSION_COL_id
  by (cases "table = ''dp_complaints''") auto

lemma group_by_eq_Nil:
  "(join '', '' (map (dim_expr (get_default DIMENSION_TABLE_OVERRIDE table [])) dims) = [])
     = (dims = [] \<or> dims = [''''])"
proof -
  have "(map (dim_expr (get_default DIMENSION_TABLE_OVERRIDE table [])) dims = [[]]) = (dims = [''''])"
    by (cases dims) (auto simp: dim_expr_eq_Nil)
  then show ?thesis by (simp add: join_eq_Nil)
qed

lemma build_parts_Inr:
  assumes "build_parts plan cs = Inr ps"
  obtains meta where
    "metric_ids plan \<noteq> []"
    "map_of METRIC_SQL (hd (metric_ids plan)) = Some meta"
    "ps = \<lparr>sp_select = select_parts (get_default DIMENSION_TABLE_OVERRIDE (m_table meta) [])
                          (dimensions plan) (metric_ids plan),
           sp_table = m_table meta,
           sp_where = where_parts (m_table meta) (time_range plan) (filters plan),
           sp_group_by = join '', '' (map (dim_expr (get_default DIMENSION_TABLE_OVERRIDE (m_table meta) []))
                                     (dimensions plan)),
           sp_having =
             (if join '', '' (map (dim_expr (get_default DIMENSION_TABLE_OVERRIDE (m_table meta) []))
                              (dimensions plan)) \<noteq> []
                 \<and> effective_min_group plan cs \<noteq> 0 \<and> m_table meta = ''dp_complaints''
              then ''HAVING COUNT(*) >= '' @ str_of_int (effective_min_group plan cs) else []),
           sp_order_by = join '', '' (order_parts (get_default DIMENSION_TABLE_OVERRIDE (m_table meta) [])
                                     (sort_by plan)),
           sp_limit = (case limit plan of None \<Rightarrow> 200 | Some n \<Rightarrow> n)\<rparr>"
proof (cases "metric_ids plan = []")
  case True
  with assms show ?thesis by (simp add: build_parts_def)
next
  case ne: False
  show ?thesis
  proof (cases "map_of METRIC_SQL (hd (metric_ids plan))")
    case None
    with ne assms show ?thesis by (simp add: build_parts_def)
  next
    case (Some meta)
    with ne assms that [of meta] show ?thesis
      by (simp add: build_parts_def Let_def)
  qed
qed

lemma compile_Inr:
  assumes "compile_dsl_to_sql sqlglot_parse inp cs = Inr sql"
  obtains ps where "build_parts (unwrap inp) cs = Inr ps" "sql = assemble ps"
proof (cases "build_parts (unwrap inp) cs")
  case (Inl e)
  with assms show ?thesis by (simp add: compile_dsl_to_sql_def)
next
  case (Inr ps)
  with assms have "validate sqlglot_parse (assemble ps) = Inr sql"
    by (simp add: compile_dsl_to_sql_def)
  then have "sql = assemble ps"
    by (simp add: validate_def split: sqlglot_result.splits if_splits)
  with Inr that show ?thesis by simp
qed

lemma effective_min_group_eq:
  "effective_min_group plan cs =
     (case map_of (case cs of None \<Rightarrow> [] | Some c \<Rightarrow> c) ''min_group_size'' of
        Some t \<Rightarrow> t
      | None \<Rightarrow> (case privacy_min_group_size plan of None \<Rightarrow> 10 | Some n \<Rightarrow> n))"
  by (simp add: effective_min_group_def get_default_def split: option.splits)

text \<open>
  C2, amended. When the compiler returns a text, the first metric is registered and
  the text is pre, then the HAVING clause, then post, where pre is the SELECT, FROM, WHERE
  and GROUP BY part and post the ORDER BY and LIMIT part. The clause
  HAVING COUNT(*) >= t stands between them when the query is grouped (the dimensions are
  neither empty nor the single empty string), the table is dp_complaints and the effective
  minimum group size t is not zero; otherwise the text is pre followed by post, and so it
  is for every query on dp_call_reports. The value t is min_group_size of the constraints
  when they have one, otherwise the one of the plan, otherwise 10.
\<close>

theorem having_iff:
  assumes "compile_dsl_to_sql sqlglot_parse inp cs = Inr sql"
  shows "\<exists>meta. metric_ids (unwrap inp) \<noteq> []
           \<and> map_of METRIC_SQL (hd (metric_ids (unwrap inp))) = Some meta
           \<and> (let plan = unwrap inp;
                   table = m_table meta;
                   overrides = get_default DIMENSION_TABLE_OVERRIDE table [];
                   t = effective_min_group plan cs;
                   grouped = (dimensions plan \<noteq> [] \<and> dimensions plan \<noteq> ['''']);
                   wh = where_parts table (time_range plan) (filters plan);
                   ob = join '', '' (order_parts overrides (sort_by plan));
                   lim = (case limit plan of None \<Rightarrow> 200 | Some n \<Rightarrow> n);
                   pre = ''SELECT '' @ join '', '' (select_parts overrides (dimensions plan) (metric_ids plan))
                         @ '' FROM '' @ table
                         @ (if wh \<noteq> [] then '' WHERE '' @ join '' AND '' wh else [])
                         @ (if grouped
                            then '' GROUP BY '' @ join '', '' (map (dim_expr overrides) (dimensions plan))
                            else []);
                   post = (if ob \<noteq> [] then '' ORDER BY '' @ ob else [])
                          @ (if lim \<noteq> 0 then '' LIMIT '' @ str_of_int lim else [])
               in (grouped \<and> table = ''dp_complaints'' \<and> t \<noteq> 0 \<longrightarrow>
                     sql = pre @ '' HAVING COUNT(*) >= '' @ str_of_int t @ post)
                \<and> (\<not> (grouped \<and> table = ''dp_complaints'' \<and> t \<noteq> 0) \<longrightarrow> sql = pre @ post)
                \<and> (table = ''dp_call_reports'' \<longrightarrow> sql = pre @ post)
                \<and> t = (case map_of (case cs of None \<Rightarrow> [] | Some c \<Rightarrow> c) ''min_group_size'' of
                          Some t \<Rightarrow> t
                        | None \<Rightarrow> (case privacy_min_group_size plan of None \<Rightarrow> 10 | Some n \<Rightarrow> n)))"
proof -
  from assms obtain ps where
    ps: "build_parts (unwrap inp) cs = Inr ps" and sql: "sql = assemble ps"
    by (rule compile_Inr)
  from ps obtain meta where
    ne: "metric_ids (unwrap inp) \<noteq> []"
    and reg: "map_of METRIC_SQL (hd (metric_ids (unwrap inp))) = Some meta"
    and eq: "ps = \<lparr>sp_select = select_parts (get_default DIMENSION_TABLE_OVERRIDE (m_table meta) [])
                          (dimensions (unwrap inp)) (metric_ids (unwrap inp)),
           sp_table = m_table meta,
           sp_where = where_parts (m_table meta) (time_range (unwrap inp)) (filters (unwrap inp)),
           sp_group_by = join '', '' (map (dim_expr (get_default DIMENSION_TABLE_OVERRIDE (m_table meta) []))
                                     (dimensions (unwrap inp))),
           sp_having =
             (if join '', '' (map (dim_expr (get_default DIMENSION_TABLE_OVERRIDE (m_table meta) []))
                              (dimensions (unwrap inp))) \<noteq> []
                 \<and> effective_min_group (unwrap inp) cs \<noteq> 0 \<and> m_table meta = ''dp_complaints''
              then ''HAVING COUNT(*) >= '' @ str_of_int (effective_min_group (unwrap inp) cs) else []),
           sp_order_by = join '', '' (order_parts (get_default DIMENSION_TABLE_OVERRIDE (m_table meta) [])
                                     (sort_by (unwrap inp))),
           sp_limit = (case limit (unwrap inp) of None \<Rightarrow> 200 | Some n \<Rightarrow> n)\<rparr>"
    by (rule build_parts_Inr)
  define plan where "plan = unwrap inp"
  define table where "table = m_table meta"
  define overrides where "overrides = get_default DIMENSION_TABLE_OVERRIDE table []"
  define t where "t = effective_min_group plan cs"
  define grouped where "grouped = (dimensions plan \<noteq> [] \<and> dimensions plan \<noteq> [''''])"
  define wh where "wh = where_parts table (time_range plan) (filters plan)"
  define ob where "ob = join '', '' (order_parts overrides (sort_by plan))"
  define lim where "lim = (case limit plan of None \<Rightarrow> (200::int) | Some n \<Rightarrow> n)"
  define pre where "pre = ''SELECT '' @ join '', '' (select_parts overrides (dimensions plan) (metric_ids plan))
                         @ '' FROM '' @ table
                         @ (if wh \<noteq> [] then '' WHERE '' @ join '' AND '' wh else [])
                         @ (if grouped
                            then '' GROUP BY '' @ join '', '' (map (dim_expr overrides) (dimensions plan))
                            else [])"
  define post where "post = (if ob \<noteq> [] then '' ORDER BY '' @ ob else [])
                          @ (if lim \<noteq> 0 then '' LIMIT '' @ str_of_int lim else [])"
  have gb: "(sp_group_by ps \<noteq> []) = grouped"
    unfolding grouped_def plan_def by (simp add: eq group_by_eq_Nil)
  have hv: "sp_having ps =
             (if grouped \<and> table = ''dp_complaints'' \<and> t \<noteq> 0
              then ''HAVING COUNT(*) >= '' @ str_of_int t else [])"
    unfolding grouped_def plan_def table_def t_def by (simp add: eq group_by_eq_Nil)
  have pre_eq: "''SELECT '' @ join '', '' (sp_select ps) @ '' FROM '' @ sp_table ps
     @ (if sp_where ps \<noteq> [] then '' WHERE '' @ join '' AND '' (sp_where ps) else [])
     @ (if sp_group_by ps \<noteq> [] then '' GROUP BY '' @ sp_group_by ps else []) = pre"
    unfolding gb unfolding pre_def wh_def overrides_def table_def plan_def by (simp add: eq)
  have post_eq: "(if sp_order_by ps \<noteq> [] then '' ORDER BY '' @ sp_order_by ps else [])
     @ (if sp_limit ps \<noteq> 0 then '' LIMIT '' @ str_of_int (sp_limit ps) else []) = post"
    unfolding post_def ob_def lim_def overrides_def table_def plan_def by (simp add: eq)
  have asm: "assemble ps =
     (''SELECT '' @ join '', '' (sp_select ps) @ '' FROM '' @ sp_table ps
     @ (if sp_where ps \<noteq> [] then '' WHERE '' @ join '' AND '' (sp_where ps) else [])
     @ (if sp_group_by ps \<noteq> [] then '' GROUP BY '' @ sp_group_by ps else []))
     @ (if sp_having ps \<noteq> [] then '' '' @ sp_having ps else [])
     @ ((if sp_order_by ps \<noteq> [] then '' ORDER BY '' @ sp_order_by ps else [])
     @ (if sp_limit ps \<noteq> 0 then '' LIMIT '' @ str_of_int (sp_limit ps) else []))"
    unfolding assemble_def append_assoc ..
  have stext: "sql = pre @ (if sp_having ps \<noteq> [] then '' '' @ sp_having ps else []) @ post"
    unfolding sql asm pre_eq post_eq ..
  have yes: "grouped \<and> table = ''dp_complaints'' \<and> t \<noteq> 0 \<longrightarrow>
               sql = pre @ '' HAVING COUNT(*) >= '' @ str_of_int t @ post"
    unfolding stext hv by simp
  have no: "\<not> (grouped \<and> table = ''dp_complaints'' \<and> t \<noteq> 0) \<longrightarrow> sql = pre @ post"
    unfolding stext hv by simp
  have agg: "table = ''dp_call_reports'' \<longrightarrow> sql = pre @ post"
    unfolding stext hv by simp
  have tv: "t = (case map_of (case cs of None \<Rightarrow> [] | Some c \<Rightarrow> c) ''min_group_size'' of
                          Some t \<Rightarrow> t
                        | None \<Rightarrow> (case privacy_min_group_size plan of None \<Rightarrow> 10 | Some n \<Rightarrow> n))"
    unfolding t_def by (rule effective_min_group_eq)
  have body: "(grouped \<and> table = ''dp_complaints'' \<and> t \<noteq> 0 \<longrightarrow>
                     sql = pre @ '' HAVING COUNT(*) >= '' @ str_of_int t @ post)
                \<and> (\<not> (grouped \<and> table = ''dp_complaints'' \<and> t \<noteq> 0) \<longrightarrow> sql = pre @ post)
                \<and> (table = ''dp_call_reports'' \<longrightarrow> sql = pre @ post)
                \<and> t = (case map_of (case cs of None \<Rightarrow> [] | Some c \<Rightarrow> c) ''min_group_size'' of
                          Some t \<Rightarrow> t
                        | None \<Rightarrow> (case privacy_min_group_size plan of None \<Rightarrow> 10 | Some n \<Rightarrow> n))"
    by (intro conjI yes no agg tv)
  have "let plan = unwrap inp;
                   table = m_table meta;
                   overrides = get_default DIMENSION_TABLE_OVERRIDE table [];
                   t = effective_min_group plan cs;
                   grouped = (dimensions plan \<noteq> [] \<and> dimensions plan \<noteq> ['''']);
                   wh = where_parts table (time_range plan) (filters plan);
                   ob = join '', '' (order_parts overrides (sort_by plan));
                   lim = (case limit plan of None \<Rightarrow> 200 | Some n \<Rightarrow> n);
                   pre = ''SELECT '' @ join '', '' (select_parts overrides (dimensions plan) (metric_ids plan))
                         @ '' FROM '' @ table
                         @ (if wh \<noteq> [] then '' WHERE '' @ join '' AND '' wh else [])
                         @ (if grouped
                            then '' GROUP BY '' @ join '', '' (map (dim_expr overrides) (dimensions plan))
                            else []);
                   post = (if ob \<noteq> [] then '' ORDER BY '' @ ob else [])
                          @ (if lim \<noteq> 0 then '' LIMIT '' @ str_of_int lim else [])
               in (grouped \<and> table = ''dp_complaints'' \<and> t \<noteq> 0 \<longrightarrow>
                     sql = pre @ '' HAVING COUNT(*) >= '' @ str_of_int t @ post)
                \<and> (\<not> (grouped \<and> table = ''dp_complaints'' \<and> t \<noteq> 0) \<longrightarrow> sql = pre @ post)
                \<and> (table = ''dp_call_reports'' \<longrightarrow> sql = pre @ post)
                \<and> t = (case map_of (case cs of None \<Rightarrow> [] | Some c \<Rightarrow> c) ''min_group_size'' of
                          Some t \<Rightarrow> t
                        | None \<Rightarrow> (case privacy_min_group_size plan of None \<Rightarrow> 10 | Some n \<Rightarrow> n))"
    unfolding Let_def
    using body
    unfolding post_def pre_def lim_def ob_def wh_def grouped_def t_def overrides_def table_def plan_def
    by assumption
  with ne reg show ?thesis by (intro exI [of _ meta] conjI)
qed

text \<open>
  C2, as stated, fails: with the one dimension that is the empty string the dimensions
  are not empty, the table is dp_complaints and the effective minimum group size is 10, but
  the GROUP BY text is empty and no HAVING clause is built.
\<close>

theorem having_degenerate_counterexample:
  "dimensions degenerate_plan \<noteq> []
   \<and> effective_min_group degenerate_plan (Some [(''min_group_size'', 10)]) = 10
   \<and> (case build_parts degenerate_plan (Some [(''min_group_size'', 10)]) of
         Inl e \<Rightarrow> False
       | Inr ps \<Rightarrow> sp_table ps = ''dp_complaints'' \<and> sp_having ps = [])
   \<and> compile_dsl_to_sql accept_all (Bare degenerate_plan) (Some [(''min_group_size'', 10)])
       = Inr ''SELECT , COUNT(*) AS complaint_count FROM dp_complaints LIMIT 200''"
  by code_simp

text \<open>
  C2, amended, at the complaints plan by product and state under the constraint 25:
  the text returned, with its HAVING clause between GROUP BY and ORDER BY.
\<close>

theorem having_iff_witness:
  "compile_dsl_to_sql accept_all (Bare complaints_plan) (Some [(''min_group_size'', 25)])
     = Inr (''SELECT product, state, COUNT(*) AS complaint_count FROM dp_complaints WHERE date_received >= ''
            @ quoted ''2024-01-01'' @ '' AND date_received <= '' @ quoted ''2025-01-01''
            @ '' GROUP BY product, state''
            @ '' HAVING COUNT(*) >= 25''
            @ '' ORDER BY product ASC LIMIT 200'')"
proof -
  let ?cs = "Some [(''min_group_size'', 25)]"
  let ?m = "\<lparr>m_table = ''dp_complaints'', m_expression = ''COUNT(*)'', m_alias = ''complaint_count''\<rparr>"
  have c: "compile_dsl_to_sql accept_all (Bare complaints_plan) ?cs
     = Inr (assemble (projr (build_parts complaints_plan ?cs)))"
    by code_simp
  have reg: "map_of METRIC_SQL (hd (metric_ids complaints_plan)) = Some ?m"
    by (simp add: complaints_plan_def METRIC_SQL_def)
  have cond: "(dimensions complaints_plan \<noteq> [] \<and> dimensions complaints_plan \<noteq> [''''])
              \<and> m_table ?m = ''dp_complaints'' \<and> effective_min_group complaints_plan ?cs \<noteq> 0"
    by code_simp
  have pre: "''SELECT '' @ join '', '' (select_parts (get_default DIMENSION_TABLE_OVERRIDE (m_table ?m) [])
                                         (dimensions complaints_plan) (metric_ids complaints_plan))
             @ '' FROM '' @ m_table ?m
             @ (if where_parts (m_table ?m) (time_range complaints_plan) (filters complaints_plan) \<noteq> []
                then '' WHERE '' @ join '' AND ''
                       (where_parts (m_table ?m) (time_range complaints_plan) (filters complaints_plan))
                else [])
             @ (if dimensions complaints_plan \<noteq> [] \<and> dimensions complaints_plan \<noteq> ['''']
                then '' GROUP BY '' @ join '', '' (map (dim_expr (get_default DIMENSION_TABLE_OVERRIDE (m_table ?m) []))
                                                    (dimensions complaints_plan))
                else [])
           = ''SELECT product, state, COUNT(*) AS complaint_count FROM dp_complaints WHERE date_received >= ''
            @ quoted ''2024-01-01'' @ '' AND date_received <= '' @ quoted ''2025-01-01''
            @ '' GROUP BY product, state''"
    by code_simp
  have hav: "'' HAVING COUNT(*) >= '' @ str_of_int (effective_min_group complaints_plan ?cs)
           = '' HAVING COUNT(*) >= 25''"
    by code_simp
  have post: "(if join '', '' (order_parts (get_default DIMENSION_TABLE_OVERRIDE (m_table ?m) [])
                              (sort_by complaints_plan)) \<noteq> []
               then '' ORDER BY '' @ join '', '' (order_parts (get_default DIMENSION_TABLE_OVERRIDE (m_table ?m) [])
                              (sort_by complaints_plan))
               else [])
              @ (if (case limit complaints_plan of None \<Rightarrow> 200 | Some n \<Rightarrow> n) \<noteq> (0::int)
                 then '' LIMIT '' @ str_of_int (case limit complaints_plan of None \<Rightarrow> 200 | Some n \<Rightarrow> n)
                 else [])
           = '' ORDER BY product ASC LIMIT 200''"
    by code_simp
  from having_iff [OF c] obtain meta where
    reg': "map_of METRIC_SQL (hd (metric_ids (unwrap (Bare complaints_plan)))) = Some meta"
    and body: "(let plan = unwrap (Bare complaints_plan);
                   table = m_table meta;
                   overrides = get_default DIMENSION_TABLE_OVERRIDE table [];
                   t = effective_min_group plan ?cs;
                   grouped = (dimensions plan \<noteq> [] \<and> dimensions plan \<noteq> ['''']);
                   wh = where_parts table (time_range plan) (filters plan);
                   ob = join '', '' (order_parts overrides (sort_by plan));
                   lim = (case limit plan of None \<Rightarrow> 200 | Some n \<Rightarrow> n);
                   pre = ''SELECT '' @ join '', '' (select_parts overrides (dimensions plan) (metric_ids plan))
                         @ '' FROM '' @ table
                         @ (if wh \<noteq> [] then '' WHERE '' @ join '' AND '' wh else [])
                         @ (if grouped
                            then '' GROUP BY '' @ join '', '' (map (dim_expr overrides) (dimensions plan))
                            else []);
                   post = (if ob \<noteq> [] then '' ORDER BY '' @ ob else [])
                          @ (if lim \<noteq> 0 then '' LIMIT '' @ str_of_int lim else [])
               in (grouped \<and> table = ''dp_complaints'' \<and> t \<noteq> 0 \<longrightarrow>
                     assemble (projr (build_parts complaints_plan ?cs))
                       = pre @ '' HAVING COUNT(*) >= '' @ str_of_int t @ post)
                \<and> (\<not> (grouped \<and> table = ''dp_complaints'' \<and> t \<noteq> 0) \<longrightarrow>
                     assemble (projr (build_parts complaints_plan ?cs)) = pre @ post)
                \<and> (table = ''dp_call_reports'' \<longrightarrow>
                     assemble (projr (build_parts complaints_plan ?cs)) = pre @ post)
                \<and> t = (case map_of (case ?cs of None \<Rightarrow> [] | Some c \<Rightarrow> c) ''min_group_size'' of
                          Some t \<Rightarrow> t
                        | None \<Rightarrow> (case privacy_min_group_size plan of None \<Rightarrow> 10 | Some n \<Rightarrow> n)))"
    by (elim exE conjE)
  from reg' reg have meta: "meta = ?m" by simp
  define P where "P = ''SELECT '' @ join '', '' (select_parts (get_default DIMENSION_TABLE_OVERRIDE (m_table ?m) [])
                                         (dimensions complaints_plan) (metric_ids complaints_plan))
             @ '' FROM '' @ m_table ?m
             @ (if where_parts (m_table ?m) (time_range complaints_plan) (filters complaints_plan) \<noteq> []
                then '' WHERE '' @ join '' AND ''
                       (where_parts (m_table ?m) (time_range complaints_plan) (filters complaints_plan))
                else [])
             @ (if dimensions complaints_plan \<noteq> [] \<and> dimensions complaints_plan \<noteq> ['''']
                then '' GROUP BY '' @ join '', '' (map (dim_expr (get_default DIMENSION_TABLE_OVERRIDE (m_table ?m) []))
                                                    (dimensions complaints_plan))
                else [])"
  define Q where "Q = (if join '', '' (order_parts (get_default DIMENSION_TABLE_OVERRIDE (m_table ?m) [])
                              (sort_by complaints_plan)) \<noteq> []
               then '' ORDER BY '' @ join '', '' (order_parts (get_default DIMENSION_TABLE_OVERRIDE (m_table ?m) [])
                              (sort_by complaints_plan))
               else [])
              @ (if (case limit complaints_plan of None \<Rightarrow> 200 | Some n \<Rightarrow> n) \<noteq> (0::int)
                 then '' LIMIT '' @ str_of_int (case limit complaints_plan of None \<Rightarrow> 200 | Some n \<Rightarrow> n)
                 else [])"
  define H where "H = '' HAVING COUNT(*) >= '' @ str_of_int (effective_min_group complaints_plan ?cs)"
  from body [unfolded Let_def unwrap.simps meta, THEN conjunct1, rule_format, OF cond]
  have "assemble (projr (build_parts complaints_plan ?cs)) = P @ H @ Q"
    unfolding P_def H_def Q_def append_assoc .
  also have "P = ''SELECT product, state, COUNT(*) AS complaint_count FROM dp_complaints WHERE date_received >= ''
            @ quoted ''2024-01-01'' @ '' AND date_received <= '' @ quoted ''2025-01-01''
            @ '' GROUP BY product, state''"
    unfolding P_def by (rule pre)
  also have "H = '' HAVING COUNT(*) >= 25''" unfolding H_def by (rule hav)
  also have "Q = '' ORDER BY product ASC LIMIT 200''" unfolding Q_def by (rule post)
  finally have "assemble (projr (build_parts complaints_plan ?cs))
     = ''SELECT product, state, COUNT(*) AS complaint_count FROM dp_complaints WHERE date_received >= ''
            @ quoted ''2024-01-01'' @ '' AND date_received <= '' @ quoted ''2025-01-01''
            @ '' GROUP BY product, state''
            @ '' HAVING COUNT(*) >= 25''
            @ '' ORDER BY product ASC LIMIT 200''"
    unfolding append_assoc .
  then show ?thesis unfolding c by (rule arg_cong)
qed

text \<open>
  C4, as stated, fails: a plan whose first metric is registered does not compile when
  the SQL parser rejects the text, here a text with a stray closing parenthesis.
\<close>

theorem compile_registered_fails_counterexample:
  "metric_ids stray_paren_plan \<noteq> []
   \<and> (case map_of METRIC_SQL (hd (metric_ids stray_paren_plan)) of
         None \<Rightarrow> False | Some meta \<Rightarrow> m_table meta = ''dp_call_reports'')
   \<and> compile_dsl_to_sql paren_parser (Bare stray_paren_plan) None
       = Inl (ValueError ''Generated SQL failed validation: Invalid expression / Unexpected token'')"
  by code_simp

lemma assemble_prefix:
  "prefix (''SELECT '' @ join '', '' (sp_select ps) @ '' FROM '' @ sp_table ps) (assemble ps)"
proof -
  have "assemble ps = (''SELECT '' @ join '', '' (sp_select ps) @ '' FROM '' @ sp_table ps)
     @ ((if sp_where ps \<noteq> [] then '' WHERE '' @ join '' AND '' (sp_where ps) else [])
     @ (if sp_group_by ps \<noteq> [] then '' GROUP BY '' @ sp_group_by ps else [])
     @ (if sp_having ps \<noteq> [] then '' '' @ sp_having ps else [])
     @ (if sp_order_by ps \<noteq> [] then '' ORDER BY '' @ sp_order_by ps else [])
     @ (if sp_limit ps \<noteq> 0 then '' LIMIT '' @ str_of_int (sp_limit ps) else []))"
    unfolding assemble_def append_assoc ..
  then show ?thesis by (metis prefixI)
qed

lemma build_parts_registered:
  assumes "metric_ids plan \<noteq> []" and "map_of METRIC_SQL (hd (metric_ids plan)) = Some meta"
  obtains ps where "build_parts plan cs = Inr ps" "sp_table ps = m_table meta"
  using assms by (simp add: build_parts_def Let_def)

text \<open>
  C4, amended. With no metric the compiler raises the no-metrics error; with a first
  metric that is not registered it raises the unknown-metric error; with a registered first
  metric it builds a text that starts with the select list followed by FROM and the
  registered table of that metric, and returns exactly that text if and only if the SQL
  parser reads at least one statement in it (otherwise it raises).
\<close>

theorem compile_outcomes:
  "(metric_ids (unwrap inp) = [] \<longrightarrow>
      compile_dsl_to_sql sqlglot_parse inp cs = Inl (ValueError ''No metrics specified in DSL plan''))
   \<and> (metric_ids (unwrap inp) \<noteq> [] \<longrightarrow> map_of METRIC_SQL (hd (metric_ids (unwrap inp))) = None \<longrightarrow>
      compile_dsl_to_sql sqlglot_parse inp cs
        = Inl (ValueError (''Unknown metric: '' @ hd (metric_ids (unwrap inp)))))
   \<and> (metric_ids (unwrap inp) \<noteq> [] \<longrightarrow> map_of METRIC_SQL (hd (metric_ids (unwrap inp))) = Some meta \<longrightarrow>
      (\<exists>ps. build_parts (unwrap inp) cs = Inr ps
         \<and> sp_table ps = m_table meta
         \<and> prefix (''SELECT '' @ join '', '' (sp_select ps) @ '' FROM '' @ m_table meta) (assemble ps)
         \<and> compile_dsl_to_sql sqlglot_parse inp cs = validate sqlglot_parse (assemble ps)
         \<and> (compile_dsl_to_sql sqlglot_parse inp cs = Inr (assemble ps)
              \<longleftrightarrow> (\<exists>n. sqlglot_parse (assemble ps) = Statements (Suc n)))
         \<and> (\<forall>sql. compile_dsl_to_sql sqlglot_parse inp cs = Inr sql \<longrightarrow> sql = assemble ps)))"
proof (intro conjI impI)
  assume "metric_ids (unwrap inp) = []"
  then show "compile_dsl_to_sql sqlglot_parse inp cs = Inl (ValueError ''No metrics specified in DSL plan'')"
    by (simp add: compile_dsl_to_sql_def build_parts_def)
next
  assume "metric_ids (unwrap inp) \<noteq> []" and "map_of METRIC_SQL (hd (metric_ids (unwrap inp))) = None"
  then show "compile_dsl_to_sql sqlglot_parse inp cs
        = Inl (ValueError (''Unknown metric: '' @ hd (metric_ids (unwrap inp))))"
    by (simp add: compile_dsl_to_sql_def build_parts_def)
next
  assume ne: "metric_ids (unwrap inp) \<noteq> []"
    and reg: "map_of METRIC_SQL (hd (metric_ids (unwrap inp))) = Some meta"
  from ne reg obtain ps where ps: "build_parts (unwrap inp) cs = Inr ps"
    and tab: "sp_table ps = m_table meta"
    by (rule build_parts_registered)
  have pre: "prefix (''SELECT '' @ join '', '' (sp_select ps) @ '' FROM '' @ m_table meta) (assemble ps)"
    using assemble_prefix [of ps] unfolding tab .
  have c: "compile_dsl_to_sql sqlglot_parse inp cs = validate sqlglot_parse (assemble ps)"
    by (simp add: compile_dsl_to_sql_def ps)
  have ok: "(compile_dsl_to_sql sqlglot_parse inp cs = Inr (assemble ps))
              = (\<exists>n. sqlglot_parse (assemble ps) = Statements (Suc n))"
    unfolding c validate_def
    by (cases "sqlglot_parse (assemble ps)") (simp_all add: gr0_conv_Suc)
  have un: "\<forall>sql. compile_dsl_to_sql sqlglot_parse inp cs = Inr sql \<longrightarrow> sql = assemble ps"
    unfolding c validate_def
    by (cases "sqlglot_parse (assemble ps)") simp_all
  show "\<exists>ps. build_parts (unwrap inp) cs = Inr ps
         \<and> sp_table ps = m_table meta
         \<and> prefix (''SELECT '' @ join '', '' (sp_select ps) @ '' FROM '' @ m_table meta) (assemble ps)
         \<and> compile_dsl_to_sql sqlglot_parse inp cs = validate sqlglot_parse (assemble ps)
         \<and> (compile_dsl_to_sql sqlglot_parse inp cs = Inr (assemble ps)
              \<longleftrightarrow> (\<exists>n. sqlglot_parse (assemble ps) = Statements (Suc n)))
         \<and> (\<forall>sql. compile_dsl_to_sql sqlglot_parse inp cs = Inr sql \<longrightarrow> sql = assemble ps)"
    by (intro exI [of _ ps] conjI ps tab pre c ok un)
qed

text \<open>
  C4, amended, at the complaints plan: no metric, an unknown metric, and the
  registered metric complaint_volume with a parser that accepts the text.
\<close>

theorem compile_outcomes_witness:
  "compile_dsl_to_sql accept_all (Bare (complaints_plan\<lparr>metric_ids := []\<rparr>)) None
     = Inl (ValueError ''No metrics specified in DSL plan'')
   \<and> compile_dsl_to_sql accept_all (Bare (complaints_plan\<lparr>metric_ids := [''revenue'']\<rparr>)) None
     = Inl (ValueError ''Unknown metric: revenue'')
   \<and> (\<exists>ps. build_parts complaints_plan None = Inr ps \<and> sp_table ps = ''dp_complaints''
         \<and> compile_dsl_to_sql accept_all (Bare complaints_plan) None = Inr (assemble ps))"
proof -
  let ?m = "\<lparr>m_table = ''dp_complaints'', m_expression = ''COUNT(*)'', m_alias = ''complaint_count''\<rparr>"
  have a: "metric_ids (unwrap (Bare (complaints_plan\<lparr>metric_ids := []\<rparr>))) = []" by simp
  have b: "metric_ids (unwrap (Bare (complaints_plan\<lparr>metric_ids := [''revenue'']\<rparr>))) \<noteq> []"
          "map_of METRIC_SQL (hd (metric_ids (unwrap (Bare (complaints_plan\<lparr>metric_ids := [''revenue'']\<rparr>))))) = None"
          "hd (metric_ids (unwrap (Bare (complaints_plan\<lparr>metric_ids := [''revenue'']\<rparr>)))) = ''revenue''"
    by (simp_all add: METRIC_SQL_def)
  have c: "metric_ids (unwrap (Bare complaints_plan)) \<noteq> []"
          "map_of METRIC_SQL (hd (metric_ids (unwrap (Bare complaints_plan)))) = Some ?m"
    by (simp_all add: complaints_plan_def METRIC_SQL_def)
  have u: "''Unknown metric: '' @ ''revenue'' = ''Unknown metric: revenue''" by simp
  have 1: "compile_dsl_to_sql accept_all (Bare (complaints_plan\<lparr>metric_ids := []\<rparr>)) None
     = Inl (ValueError ''No metrics specified in DSL plan'')"
    by (rule compile_outcomes [of "Bare (complaints_plan\<lparr>metric_ids := []\<rparr>)" accept_all None ?m,
          THEN conjunct1, rule_format, OF a])
  have "compile_dsl_to_sql accept_all (Bare (complaints_plan\<lparr>metric_ids := [''revenue'']\<rparr>)) None
     = Inl (ValueError (''Unknown metric: '' @ hd (metric_ids (unwrap (Bare (complaints_plan\<lparr>metric_ids := [''revenue'']\<rparr>))))))"
    by (rule compile_outcomes [of "Bare (complaints_plan\<lparr>metric_ids := [''revenue'']\<rparr>)" accept_all None ?m,
          THEN conjunct2, THEN conjunct1, rule_format, OF b(1) b(2)])
  then have 2: "compile_dsl_to_sql accept_all (Bare (complaints_plan\<lparr>metric_ids := [''revenue'']\<rparr>)) None
     = Inl (ValueError ''Unknown metric: revenue'')" unfolding b(3) u .
  from compile_outcomes [of "Bare complaints_plan" accept_all None ?m,
          THEN conjunct2, THEN conjunct2, rule_format, OF c(1) c(2)]
  obtain ps where ps: "build_parts (unwrap (Bare complaints_plan)) None = Inr ps"
    and tab: "sp_table ps = m_table ?m"
    and ok: "compile_dsl_to_sql accept_all (Bare complaints_plan) None = Inr (assemble ps)
              \<longleftrightarrow> (\<exists>n. accept_all (assemble ps) = Statements (Suc n))"
    by blast
  have "\<exists>n. accept_all (assemble ps) = Statements (Suc n)" by (simp add: accept_all_def)
  with ok have r: "compile_dsl_to_sql accept_all (Bare complaints_plan) None = Inr (assemble ps)" ..
  from tab have tab': "sp_table ps = ''dp_complaints''" by simp
  from ps have ps': "build_parts complaints_plan None = Inr ps" by simp
  have 3: "\<exists>ps. build_parts complaints_plan None = Inr ps \<and> sp_table ps = ''dp_complaints''
         \<and> compile_dsl_to_sql accept_all (Bare complaints_plan) None = Inr (assemble ps)"
    by (intro exI [of _ ps] conjI ps' tab' r)
  from 1 2 3 show ?thesis by (intro conjI)
qed

section \<open>Quality status: properties\<close>

lemma quality_loop_Inr:
  "quality_loop ids dps = Inr out \<Longrightarrow>
     (\<forall>dp \<in> set dps. dp_name dp \<noteq> None)
   \<and> out = map (\<lambda>dp. \<lparr>q_dataset = or_empty (dp_name dp),
                         q_version = (case dp_version dp of None \<Rightarrow> ''unknown'' | Some v \<Rightarrow> v),
                         q_freshness = (case dp_freshness dp of None \<Rightarrow> ''unknown'' | Some v \<Rightarrow> v),
                         tests_passed = True\<rparr>)
               (filter (\<lambda>dp. or_empty (dp_name dp) \<in> set ids) dps)"
proof (induction dps arbitrary: out)
  case Nil
  then show ?case by simp
next
  case (Cons dp dps)
  from Cons.prems obtain n where n: "dp_name dp = Some n"
    by (cases "dp_name dp") auto
  from Cons.prems n obtain rest where rest: "quality_loop ids dps = Inr rest"
    by (cases "quality_loop ids dps") auto
  note ih = Cons.IH [OF rest]
  from Cons.prems n rest ih show ?case by (auto simp: or_empty_def)
qed

lemma quality_loop_total:
  "\<forall>dp \<in> set dps. dp_name dp \<noteq> None \<Longrightarrow> \<exists>out. quality_loop ids dps = Inr out"
  by (induction dps) auto

text \<open>
  C10. Every record that quality_status returns has tests_passed = True, and the
  records are those of the data products of the catalog whose name is in the requested
  list, in the order of the catalog, each with its name, its version and its freshness
  (unknown when the catalog has none). The function returns if and only if every data
  product of the catalog has a name.
\<close>

theorem quality_status_hardcoded:
  "(\<forall>out. quality_status ids cat = Inr out \<longrightarrow>
       (\<forall>q \<in> set out. tests_passed q)
     \<and> out = map (\<lambda>dp. \<lparr>q_dataset = or_empty (dp_name dp),
                           q_version = (case dp_version dp of None \<Rightarrow> ''unknown'' | Some v \<Rightarrow> v),
                           q_freshness = (case dp_freshness dp of None \<Rightarrow> ''unknown'' | Some v \<Rightarrow> v),
                           tests_passed = True\<rparr>)
                 (filter (\<lambda>dp. or_empty (dp_name dp) \<in> set ids) (cat_data_products cat))
     \<and> map q_dataset out
         = filter (\<lambda>n. n \<in> set ids) (map (\<lambda>dp. or_empty (dp_name dp)) (cat_data_products cat)))
 \<and> ((\<exists>out. quality_status ids cat = Inr out)
       \<longleftrightarrow> (\<forall>dp \<in> set (cat_data_products cat). dp_name dp \<noteq> None))"
proof (intro conjI allI impI)
  fix out assume a: "quality_status ids cat = Inr out"
  then have l: "quality_loop ids (cat_data_products cat) = Inr out"
    by (simp add: quality_status_def)
  note e = quality_loop_Inr [OF l, THEN conjunct2]
  show "out = map (\<lambda>dp. \<lparr>q_dataset = or_empty (dp_name dp),
                           q_version = (case dp_version dp of None \<Rightarrow> ''unknown'' | Some v \<Rightarrow> v),
                           q_freshness = (case dp_freshness dp of None \<Rightarrow> ''unknown'' | Some v \<Rightarrow> v),
                           tests_passed = True\<rparr>)
                 (filter (\<lambda>dp. or_empty (dp_name dp) \<in> set ids) (cat_data_products cat))"
    by (rule e)
  show "\<forall>q \<in> set out. tests_passed q" by (subst e) simp
  show "map q_dataset out
         = filter (\<lambda>n. n \<in> set ids) (map (\<lambda>dp. or_empty (dp_name dp)) (cat_data_products cat))"
    by (subst e) (simp add: filter_map comp_def)
next
  show "(\<exists>out. quality_status ids cat = Inr out)
       \<longleftrightarrow> (\<forall>dp \<in> set (cat_data_products cat). dp_name dp \<noteq> None)"
    unfolding quality_status_def
    using quality_loop_Inr [of ids "cat_data_products cat"] quality_loop_total [of "cat_data_products cat" ids]
    by blast
qed

text \<open>
  C10, at the catalog of two data products and the request for dp_call_reports and
  an unknown name.
\<close>

theorem quality_status_hardcoded_witness:
  "quality_status [''dp_call_reports'', ''x''] demo_catalog =
     Inr [\<lparr>q_dataset = ''dp_call_reports'', q_version = ''unknown'', q_freshness = ''daily'',
           tests_passed = True\<rparr>]"
proof -
  have names: "\<forall>dp \<in> set (cat_data_products demo_catalog). dp_name dp \<noteq> None"
    by (simp add: demo_catalog_def)
  note t = quality_status_hardcoded [of "[''dp_call_reports'', ''x'']" demo_catalog]
  from t [THEN conjunct2] names obtain out
    where out: "quality_status [''dp_call_reports'', ''x''] demo_catalog = Inr out" by blast
  from t [THEN conjunct1, rule_format, OF out]
  have tp: "\<forall>q \<in> set out. tests_passed q"
    and eq: "out = map (\<lambda>dp. \<lparr>q_dataset = or_empty (dp_name dp),
                           q_version = (case dp_version dp of None \<Rightarrow> ''unknown'' | Some v \<Rightarrow> v),
                           q_freshness = (case dp_freshness dp of None \<Rightarrow> ''unknown'' | Some v \<Rightarrow> v),
                           tests_passed = True\<rparr>)
                 (filter (\<lambda>dp. or_empty (dp_name dp) \<in> set [''dp_call_reports'', ''x''])
                    (cat_data_products demo_catalog))"
    by blast+
  have "out = [\<lparr>q_dataset = ''dp_call_reports'', q_version = ''unknown'', q_freshness = ''daily'',
           tests_passed = True\<rparr>]"
    by (subst eq) (simp add: demo_catalog_def or_empty_def)
  with out show ?thesis by simp
qed

section \<open>Outlier detection: properties\<close>

lemma index_of_mem:
  "c \<in> set xs \<Longrightarrow> \<exists>i. index_of xs c = Some i \<and> i < length xs \<and> xs ! i = c"
  by (induction xs) auto


lemma index_of_nth:
  "distinct xs \<Longrightarrow> j < length xs \<Longrightarrow> index_of xs (xs ! j) = Some j"
proof (induction xs arbitrary: j)
  case Nil
  then show ?case by simp
next
  case (Cons x xs)
  show ?case
  proof (cases j)
    case 0
    then show ?thesis by simp
  next
    case (Suc k)
    with Cons.prems have "xs ! k \<noteq> x" "index_of xs (xs ! k) = Some k"
      using Cons.IH [of k] by auto
    with Suc show ?thesis by simp
  qed
qed

text \<open>The cell that \<open>row[columns.index(c)]\<close> reads.\<close>

lemma cell_is_numeric_wf:
  assumes "c \<in> set columns" "length r0 = length columns"
  shows "\<exists>i. index_of columns c = Some i \<and> cell_is_numeric columns r0 c = Inr (is_numeric (r0 ! i))"
proof -
  from index_of_mem [OF assms(1)] obtain i where i: "index_of columns c = Some i" "i < length columns"
    by blast
  with assms(2) show ?thesis by (simp add: cell_is_numeric_def row_get_def)
qed

lemma numeric_cols_loop_wf:
  assumes "length r0 = length columns"
  shows "set cs \<subseteq> set columns \<Longrightarrow>
         numeric_cols_loop columns r0 cs =
           Inr (filter (\<lambda>c. is_numeric (r0 ! the (index_of columns c))) cs)"
proof (induction cs)
  case Nil
  then show ?case by simp
next
  case (Cons c cs)
  from Cons.prems have c: "c \<in> set columns" and cs: "set cs \<subseteq> set columns" by auto
  from cell_is_numeric_wf [OF c assms] obtain i
    where i: "index_of columns c = Some i" "cell_is_numeric columns r0 c = Inr (is_numeric (r0 ! i))"
    by blast
  from Cons.IH [OF cs] i show ?case by simp
qed








text \<open>
  C5, as stated, fails: in a result of six rows whose second column is null in the
  first row and numeric in the five others, the last column with a number in some row is
  the second one, but the scan reads the first column and finds no outlier there, while
  the second column has one.
\<close>

theorem metric_column_late_numeric_counterexample:
  "4 \<le> length late_numeric_rows
   \<and> last_numeric_in_any_row [''a'', ''b''] late_numeric_rows = Some 1
   \<and> metric_column [''a'', ''b''] late_numeric_rows = Inr (Some 0)
   \<and> detect_outliers [''a'', ''b''] late_numeric_rows = Inr []
   \<and> iqr_outliers (map (\<lambda>r. r ! 1) late_numeric_rows) = Inr [5]"
  by code_simp

lemma numeric_cols_first_row:
  assumes d: "distinct columns" and len: "length r0 = length columns"
  shows "numeric_cols columns (r0 # rest) =
           Inr (map (\<lambda>j. columns ! j) (filter (\<lambda>j. is_numeric (r0 ! j)) [0..<length columns]))"
proof -
  have "numeric_cols columns (r0 # rest) =
          Inr (filter (\<lambda>c. is_numeric (r0 ! the (index_of columns c))) columns)"
    using numeric_cols_loop_wf [OF len, of columns] by (simp add: numeric_cols_def)
  also have "filter (\<lambda>c. is_numeric (r0 ! the (index_of columns c))) columns
           = filter (\<lambda>c. is_numeric (r0 ! the (index_of columns c)))
               (map (\<lambda>j. columns ! j) [0..<length columns])"
    by (simp add: map_nth)
  also have "\<dots> = map (\<lambda>j. columns ! j)
                     (filter (\<lambda>j. is_numeric (r0 ! the (index_of columns (columns ! j))))
                        [0..<length columns])"
    by (simp add: filter_map comp_def)
  also have "filter (\<lambda>j. is_numeric (r0 ! the (index_of columns (columns ! j)))) [0..<length columns]
           = filter (\<lambda>j. is_numeric (r0 ! j)) [0..<length columns]"
    by (rule filter_cong) (auto simp: index_of_nth [OF d])
  finally show ?thesis .
qed

text \<open>
  C5, amended. With distinct column names and a first row that has one value for each
  column, the column the scan reads is the last column whose value in the first row is a
  number, when there is one and the result has at least four rows; otherwise no scan runs.
  With no row at all no scan runs.
\<close>

theorem metric_column_first_row:
  assumes d: "distinct columns" and len: "length r0 = length columns"
  shows "metric_column columns (r0 # rest) =
           Inr (let js = filter (\<lambda>j. is_numeric (r0 ! j)) [0..<length columns]
                in if js \<noteq> [] \<and> 4 \<le> length (r0 # rest) then Some (last js) else None)
       \<and> metric_column columns [] = Inr None"
proof
  define js where "js = filter (\<lambda>j. is_numeric (r0 ! j)) [0..<length columns]"
  have nc: "numeric_cols columns (r0 # rest) = Inr (map (\<lambda>j. columns ! j) js)"
    unfolding js_def by (rule numeric_cols_first_row [OF d len])
  show "metric_column columns (r0 # rest) =
           Inr (let js = filter (\<lambda>j. is_numeric (r0 ! j)) [0..<length columns]
                in if js \<noteq> [] \<and> 4 \<le> length (r0 # rest) then Some (last js) else None)"
  proof (cases "js \<noteq> [] \<and> 4 \<le> length (r0 # rest)")
    case True
    then have "last js \<in> set js" by simp
    then have "last js < length columns" by (simp add: js_def)
    from index_of_nth [OF d this] have "index_of columns (columns ! last js) = Some (last js)" .
    moreover have "last (map (\<lambda>j. columns ! j) js) = columns ! last js"
      using True by (simp add: last_map)
    ultimately show ?thesis
      using True nc unfolding metric_column_def Let_def js_def [symmetric] by simp
  next
    case False
    then show ?thesis
      using nc unfolding metric_column_def Let_def js_def [symmetric] by auto
  qed
next
  show "metric_column columns [] = Inr None"
    by (simp add: metric_column_def numeric_cols_def)
qed

text \<open>
  C5, amended, at the result whose second column is null in the first row: the scan
  reads the first column.
\<close>

theorem metric_column_first_row_witness:
  "metric_column [''a'', ''b''] late_numeric_rows = Inr (Some 0)"
proof -
  have d: "distinct [''a'', ''b'']" by simp
  have len: "length [CInt 1, CNull] = length [''a'', ''b'']" by simp
  have js: "filter (\<lambda>j. is_numeric ([CInt 1, CNull] ! j)) [0..<length [''a'', ''b'']] = [0]"
    by code_simp
  show ?thesis
    using metric_column_first_row [OF d len, THEN conjunct1,
        of "[[CInt 2, CInt 5], [CInt 3, CInt 6], [CInt 4, CInt 5], [CInt 5, CInt 6], [CInt 6, CInt 700]]"]
    unfolding Let_def js late_numeric_rows_def by simp
qed

section \<open>Agent pipeline: properties\<close>

lemma map_of_denied_response:
  "map_of (denied_response plan pr) ''status'' = Some (VStr ''denied'')"
  "map_of (denied_response plan pr) ''policy'' = Some (VPolicy pr)"
  "map_of (denied_response plan pr) ''explanation'' = Some (VStr (result_rationale pr))"
  "map_of (denied_response plan pr) ''alternative'' =
     Some (VStr ''Try a query without narrative fields, or request access elevation.'')"
  "map_of (denied_response plan pr) ''dsl'' = Some (VPlan (dsl plan))"
  "map_of (denied_response plan pr) ''sql'' = None"
  "map fst (denied_response plan pr) = [''status'', ''policy'', ''explanation'', ''alternative'', ''dsl'']"
  by (simp_all add: denied_response_def)

lemma map_of_error_response:
  "map_of (error_response plan msg sql) ''status'' = Some (VStr ''error'')"
  "map_of (error_response plan msg sql) ''policy'' = None"
  by (simp_all add: error_response_def)

lemma map_of_success_response:
  "map_of (success_response plan pr sql columns rows out ev) ''status'' = Some (VStr ''success'')"
  "map_of (success_response plan pr sql columns rows out ev) ''policy'' = Some (VPolicy pr)"
  by (simp_all add: success_response_def)

lemma run_agent_deny:
  assumes "parse_nl_to_dsl (e_cal e) query = Inr plan" and "e_load_catalog e = Inr cat"
    and "decision (policy_eval (policy_request_of plan user_role) None) = ''DENY''"
  shows "run_agent e query user_role =
           Inr (denied_response plan (policy_eval (policy_request_of plan user_role) None))"
  using assms by (simp add: run_agent_def Let_def)

text \<open>The three ways in which a run returns a response.\<close>

lemma run_agent_Inr:
  assumes "run_agent e query user_role = Inr resp"
  shows "\<exists>plan. parse_nl_to_dsl (e_cal e) query = Inr plan
           \<and> (decision (policy_eval (policy_request_of plan user_role) None) = ''DENY''
                \<and> resp = denied_response plan (policy_eval (policy_request_of plan user_role) None)
              \<or> decision (policy_eval (policy_request_of plan user_role) None) \<noteq> ''DENY''
                \<and> ((\<exists>msg sql. resp = error_response plan msg sql)
                   \<or> (\<exists>sql columns rows out ev.
                         resp = success_response plan
                                  (policy_eval (policy_request_of plan user_role) None)
                                  sql columns rows out ev)))"
proof (cases "parse_nl_to_dsl (e_cal e) query")
  case (Inl err)
  with assms show ?thesis by (simp add: run_agent_def)
next
  case p: (Inr plan)
  define pr where "pr = policy_eval (policy_request_of plan user_role) None"
  show ?thesis
  proof (cases "e_load_catalog e")
    case (Inl err)
    with assms p show ?thesis by (simp add: run_agent_def)
  next
    case c: (Inr cat)
    show ?thesis
    proof (cases "decision pr = ''DENY''")
      case True
      with assms p c have "resp = denied_response plan pr"
        by (simp add: run_agent_def Let_def pr_def)
      with True p show ?thesis unfolding pr_def by blast
    next
      case nd: False
      show ?thesis
      proof (cases "compile_dsl_to_sql (e_sqlglot e) (Wrapped plan) (Some (constraints pr))")
        case (Inl err)
        with assms p c nd show ?thesis by (simp add: run_agent_def Let_def pr_def)
      next
        case s: (Inr sql)
        show ?thesis
        proof (cases "e_execute e sql")
          case (Inl msg)
          with assms p c nd s have "resp = error_response plan msg sql"
            by (simp add: run_agent_def Let_def pr_def)
          with nd p show ?thesis unfolding pr_def by blast
        next
          case x: (Inr res)
          obtain columns rows where res: "res = (columns, rows)" by (cases res)
          from assms p c nd s x res
          have "\<exists>out ev. resp = success_response plan pr sql columns rows out ev"
            by (auto simp: run_agent_def Let_def pr_def split: sum.splits)
          with nd p show ?thesis unfolding pr_def by blast
        qed
      qed
    qed
  qed
qed

lemma parse_Inr:
  assumes "parse_nl_to_dsl cal query = Inr plan"
  shows "privacy_min_group_size (dsl plan) = Some 10 \<and> limit (dsl plan) = Some 200"
  using assms by (auto simp: parse_nl_to_dsl_def split: sum.splits)

lemma detect_time_range_cases:
  "(\<exists>tr. detect_time_range cal query = Inr tr) \<or> detect_time_range cal query = Inl OverflowError"
  by (simp add: detect_time_range_def Let_def split: option.splits)

lemma policy_eval_unconstrained:
  assumes "\<not> match_min_group req"
  shows "policy_eval req None =
           (if match_high req \<and> user_role_of req \<notin> {''compliance_officer'', ''admin''}
            then \<lparr>decision = ''DENY'', constraints = [],
                  result_rationale = ''High-sensitivity narrative fields are restricted. Only compliance_officer or admin roles may access them.''\<rparr>
            else \<lparr>decision = ''ALLOW'', constraints = [],
                  result_rationale = ''Request complies with all policies.''\<rparr>)"
  using assms by (simp add: policy_eval_def DEFAULT_POLICIES_def role_simps)
     (simp add: deny_narrative_fields_def)

text \<open>
  C1. When the query is parsed, the catalog is read and the policy evaluation of the
  request of the run gives DENY, run_agent returns a response with exactly the keys
  status, policy, explanation, alternative and dsl: the status is denied, the policy is the
  result of the evaluation, the explanation is its rationale, the alternative is a text
  that is not empty, and dsl is the parsed plan. It has no key sql, and the response is
  the same whatever the SQL parser and the database are: neither is consulted.
\<close>

theorem run_agent_denied:
  assumes "parse_nl_to_dsl (e_cal e) query = Inr plan" and "e_load_catalog e = Inr cat"
    and "decision (policy_eval (policy_request_of plan user_role) None) = ''DENY''"
  shows "\<exists>resp. run_agent e query user_role = Inr resp
           \<and> map_of resp ''status'' = Some (VStr ''denied'')
           \<and> map_of resp ''policy'' = Some (VPolicy (policy_eval (policy_request_of plan user_role) None))
           \<and> map_of resp ''explanation''
               = Some (VStr (result_rationale (policy_eval (policy_request_of plan user_role) None)))
           \<and> (\<exists>a. map_of resp ''alternative'' = Some (VStr a) \<and> a \<noteq> [])
           \<and> map_of resp ''dsl'' = Some (VPlan (dsl plan))
           \<and> map_of resp ''sql'' = None
           \<and> map fst resp = [''status'', ''policy'', ''explanation'', ''alternative'', ''dsl'']
           \<and> (\<forall>p x. run_agent (e\<lparr>e_sqlglot := p, e_execute := x\<rparr>) query user_role = Inr resp)"
proof -
  define pr where "pr = policy_eval (policy_request_of plan user_role) None"
  define resp where "resp = denied_response plan pr"
  have r: "run_agent e query user_role = Inr resp"
    unfolding resp_def pr_def using assms by (rule run_agent_deny)
  have ind: "\<forall>p x. run_agent (e\<lparr>e_sqlglot := p, e_execute := x\<rparr>) query user_role = Inr resp"
  proof (intro allI)
    fix p x
    have "parse_nl_to_dsl (e_cal (e\<lparr>e_sqlglot := p, e_execute := x\<rparr>)) query = Inr plan"
      using assms(1) by simp
    moreover have "e_load_catalog (e\<lparr>e_sqlglot := p, e_execute := x\<rparr>) = Inr cat"
      using assms(2) by simp
    ultimately show "run_agent (e\<lparr>e_sqlglot := p, e_execute := x\<rparr>) query user_role = Inr resp"
      unfolding resp_def pr_def using assms(3) by (rule run_agent_deny)
  qed
  have alt: "\<exists>a. map_of resp ''alternative'' = Some (VStr a) \<and> a \<noteq> []"
    unfolding resp_def map_of_denied_response by simp
  show ?thesis
    apply (rule exI [of _ resp])
    apply (intro conjI r alt ind)
    unfolding resp_def pr_def
    by (rule map_of_denied_response)+
qed

text \<open>
  C1, at the query for complaint narratives asked by an analyst.
\<close>

theorem run_agent_denied_witness:
  "\<exists>resp. run_agent demo_env ''Can I see complaint narratives?'' ''analyst'' = Inr resp
     \<and> map_of resp ''status'' = Some (VStr ''denied'')
     \<and> map_of resp ''explanation'' = Some (VStr ''High-sensitivity narrative fields are restricted. Only compliance_officer or admin roles may access them.'')
     \<and> map_of resp ''sql'' = None"
proof -
  let ?q = "''Can I see complaint narratives?''"
  let ?plan = "projr (parse_nl_to_dsl (e_cal demo_env) ?q)"
  have p: "parse_nl_to_dsl (e_cal demo_env) ?q = Inr ?plan" by code_simp
  have c: "e_load_catalog demo_env = Inr demo_catalog" by (simp add: demo_env_def)
  have d: "decision (policy_eval (policy_request_of ?plan ''analyst'') None) = ''DENY''"
    by code_simp
  have ra: "result_rationale (policy_eval (policy_request_of ?plan ''analyst'') None)
          = ''High-sensitivity narrative fields are restricted. Only compliance_officer or admin roles may access them.''"
    by code_simp
  from run_agent_denied [OF p c d] obtain resp where
    big: "run_agent demo_env ?q ''analyst'' = Inr resp
           \<and> map_of resp ''status'' = Some (VStr ''denied'')
           \<and> map_of resp ''policy'' = Some (VPolicy (policy_eval (policy_request_of ?plan ''analyst'') None))
           \<and> map_of resp ''explanation''
               = Some (VStr (result_rationale (policy_eval (policy_request_of ?plan ''analyst'') None)))
           \<and> (\<exists>a. map_of resp ''alternative'' = Some (VStr a) \<and> a \<noteq> [])
           \<and> map_of resp ''dsl'' = Some (VPlan (dsl ?plan))
           \<and> map_of resp ''sql'' = None
           \<and> map fst resp = [''status'', ''policy'', ''explanation'', ''alternative'', ''dsl'']
           \<and> (\<forall>p x. run_agent (demo_env\<lparr>e_sqlglot := p, e_execute := x\<rparr>) ?q ''analyst'' = Inr resp)" ..
  from big have 1: "run_agent demo_env ?q ''analyst'' = Inr resp" by (rule conjunct1)
  from big have 2: "map_of resp ''status'' = Some (VStr ''denied'')"
    by (rule conjunct2 [THEN conjunct1])
  from big have "map_of resp ''explanation''
               = Some (VStr (result_rationale (policy_eval (policy_request_of ?plan ''analyst'') None)))"
    by (rule conjunct2 [THEN conjunct2, THEN conjunct2, THEN conjunct1])
  then have 3: "map_of resp ''explanation'' = Some (VStr ''High-sensitivity narrative fields are restricted. Only compliance_officer or admin roles may access them.'')"
    unfolding ra .
  from big have 4: "map_of resp ''sql'' = None"
    by (rule conjunct2 [THEN conjunct2, THEN conjunct2, THEN conjunct2, THEN conjunct2, THEN conjunct2, THEN conjunct1])
  from 1 2 3 4 show ?thesis by (intro exI [of _ resp] conjI)
qed

text \<open>
  C9. Every plan that parse_nl_to_dsl returns has the privacy minimum group size 10
  and the limit 200; the request that run_agent makes of it does not match the rule
  min_aggregation, and its policy decision is DENY or ALLOW, never
  ALLOW_WITH_CONSTRAINTS. Every response of run_agent is a denied one with the decision
  DENY, or an error or success one of a run whose decision is ALLOW; a policy entry of a
  response never has the decision ALLOW_WITH_CONSTRAINTS. The parser returns a plan
  unless the date arithmetic of the time range overflows.
\<close>

theorem parse_never_constrained:
  "(\<forall>plan. parse_nl_to_dsl (e_cal e) query = Inr plan \<longrightarrow>
       privacy_min_group_size (dsl plan) = Some 10 \<and> limit (dsl plan) = Some 200
     \<and> \<not> match_min_group (policy_request_of plan user_role)
     \<and> decision (policy_eval (policy_request_of plan user_role) None) \<in> {''DENY'', ''ALLOW''}
     \<and> decision (policy_eval (policy_request_of plan user_role) None) \<noteq> ''ALLOW_WITH_CONSTRAINTS'')
   \<and> (\<forall>resp. run_agent e query user_role = Inr resp \<longrightarrow>
         (\<exists>plan. parse_nl_to_dsl (e_cal e) query = Inr plan
            \<and> (map_of resp ''status'' = Some (VStr ''denied'')
                 \<and> decision (policy_eval (policy_request_of plan user_role) None) = ''DENY''
                 \<and> map_of resp ''policy''
                     = Some (VPolicy (policy_eval (policy_request_of plan user_role) None))
               \<or> map_of resp ''status'' = Some (VStr ''error'')
                 \<and> decision (policy_eval (policy_request_of plan user_role) None) = ''ALLOW''
                 \<and> map_of resp ''policy'' = None
               \<or> map_of resp ''status'' = Some (VStr ''success'')
                 \<and> decision (policy_eval (policy_request_of plan user_role) None) = ''ALLOW''
                 \<and> map_of resp ''policy''
                     = Some (VPolicy (policy_eval (policy_request_of plan user_role) None)))))
   \<and> (\<forall>resp p. run_agent e query user_role = Inr resp \<longrightarrow>
         map_of resp ''policy'' = Some (VPolicy p) \<longrightarrow>
           decision p \<noteq> ''ALLOW_WITH_CONSTRAINTS'' \<and> decision p \<in> {''DENY'', ''ALLOW''})
   \<and> ((\<exists>plan. parse_nl_to_dsl (e_cal e) query = Inr plan)
        \<or> parse_nl_to_dsl (e_cal e) query = Inl OverflowError)"
proof -
  have nm: "\<not> match_min_group (policy_request_of plan user_role)"
    if "parse_nl_to_dsl (e_cal e) query = Inr plan" for plan
    using parse_Inr [OF that] by (simp add: match_min_group_def policy_request_of_def)
  have dec: "decision (policy_eval (policy_request_of plan user_role) None) \<in> {''DENY'', ''ALLOW''}"
    if "parse_nl_to_dsl (e_cal e) query = Inr plan" for plan
    unfolding policy_eval_unconstrained [OF nm [OF that]] by simp
  have nawc: "decision (policy_eval (policy_request_of plan user_role) None) \<noteq> ''ALLOW_WITH_CONSTRAINTS''"
    if "parse_nl_to_dsl (e_cal e) query = Inr plan" for plan
    unfolding policy_eval_unconstrained [OF nm [OF that]] by simp
  have allow: "decision (policy_eval (policy_request_of plan user_role) None) = ''ALLOW''"
    if "parse_nl_to_dsl (e_cal e) query = Inr plan"
      and "decision (policy_eval (policy_request_of plan user_role) None) \<noteq> ''DENY''" for plan
    using dec [OF that(1)] that(2) by simp
  have one: "\<forall>plan. parse_nl_to_dsl (e_cal e) query = Inr plan \<longrightarrow>
       privacy_min_group_size (dsl plan) = Some 10 \<and> limit (dsl plan) = Some 200
     \<and> \<not> match_min_group (policy_request_of plan user_role)
     \<and> decision (policy_eval (policy_request_of plan user_role) None) \<in> {''DENY'', ''ALLOW''}
     \<and> decision (policy_eval (policy_request_of plan user_role) None) \<noteq> ''ALLOW_WITH_CONSTRAINTS''"
    using parse_Inr nm dec nawc by blast
  have two: "\<exists>plan. parse_nl_to_dsl (e_cal e) query = Inr plan
            \<and> (map_of resp ''status'' = Some (VStr ''denied'')
                 \<and> decision (policy_eval (policy_request_of plan user_role) None) = ''DENY''
                 \<and> map_of resp ''policy''
                     = Some (VPolicy (policy_eval (policy_request_of plan user_role) None))
               \<or> map_of resp ''status'' = Some (VStr ''error'')
                 \<and> decision (policy_eval (policy_request_of plan user_role) None) = ''ALLOW''
                 \<and> map_of resp ''policy'' = None
               \<or> map_of resp ''status'' = Some (VStr ''success'')
                 \<and> decision (policy_eval (policy_request_of plan user_role) None) = ''ALLOW''
                 \<and> map_of resp ''policy''
                     = Some (VPolicy (policy_eval (policy_request_of plan user_role) None)))"
    if r: "run_agent e query user_role = Inr resp" for resp
  proof -
    from run_agent_Inr [OF r] obtain plan where
      p: "parse_nl_to_dsl (e_cal e) query = Inr plan"
      and cases: "decision (policy_eval (policy_request_of plan user_role) None) = ''DENY''
                \<and> resp = denied_response plan (policy_eval (policy_request_of plan user_role) None)
              \<or> decision (policy_eval (policy_request_of plan user_role) None) \<noteq> ''DENY''
                \<and> ((\<exists>msg sql. resp = error_response plan msg sql)
                   \<or> (\<exists>sql columns rows out ev.
                         resp = success_response plan
                                  (policy_eval (policy_request_of plan user_role) None)
                                  sql columns rows out ev))"
      by (elim exE conjE)
    from cases show ?thesis
    proof (elim disjE conjE exE)
      assume "decision (policy_eval (policy_request_of plan user_role) None) = ''DENY''"
        and "resp = denied_response plan (policy_eval (policy_request_of plan user_role) None)"
      with p show ?thesis
        by (intro exI [of _ plan] conjI disjI1) (simp_all only: map_of_denied_response)
    next
      fix msg sql
      assume nd: "decision (policy_eval (policy_request_of plan user_role) None) \<noteq> ''DENY''"
        and "resp = error_response plan msg sql"
      with p allow [OF p nd] show ?thesis
        by (intro exI [of _ plan] conjI disjI2 disjI1) (simp_all only: map_of_error_response)
    next
      fix sql columns rows out ev
      assume nd: "decision (policy_eval (policy_request_of plan user_role) None) \<noteq> ''DENY''"
        and "resp = success_response plan (policy_eval (policy_request_of plan user_role) None)
                      sql columns rows out ev"
      with p allow [OF p nd] show ?thesis
        by (intro exI [of _ plan] conjI disjI2) (simp_all only: map_of_success_response)
    qed
  qed
  have three: "decision p \<noteq> ''ALLOW_WITH_CONSTRAINTS'' \<and> decision p \<in> {''DENY'', ''ALLOW''}"
    if r: "run_agent e query user_role = Inr resp" and mp: "map_of resp ''policy'' = Some (VPolicy p)"
    for resp p
  proof -
    from two [OF r] obtain plan where
      pl: "parse_nl_to_dsl (e_cal e) query = Inr plan"
      and "map_of resp ''policy'' = Some (VPolicy (policy_eval (policy_request_of plan user_role) None))
           \<or> map_of resp ''policy'' = None"
      by blast
    with mp have "p = policy_eval (policy_request_of plan user_role) None" by auto
    with dec [OF pl] nawc [OF pl] show ?thesis by simp
  qed
  have four: "(\<exists>plan. parse_nl_to_dsl (e_cal e) query = Inr plan)
        \<or> parse_nl_to_dsl (e_cal e) query = Inl OverflowError"
    using detect_time_range_cases [of "e_cal e" query]
    by (auto simp: parse_nl_to_dsl_def)
  from one two three four show ?thesis by blast
qed

text \<open>
  C9, at a query for a breakdown of complaint volumes over the last 12 months, asked
  by an analyst: the plan has the minimum group size 10 and the limit 200, and the run
  succeeds with the decision ALLOW.
\<close>

theorem parse_never_constrained_witness:
  "privacy_min_group_size
     (dsl (projr (parse_nl_to_dsl (e_cal demo_env)
        ''Break down complaint volumes by product and state for the last 12 months.''))) = Some 10
   \<and> limit
     (dsl (projr (parse_nl_to_dsl (e_cal demo_env)
        ''Break down complaint volumes by product and state for the last 12 months.''))) = Some 200
   \<and> (\<exists>resp p. run_agent demo_env
          ''Break down complaint volumes by product and state for the last 12 months.'' ''analyst''
            = Inr resp
        \<and> map_of resp ''status'' = Some (VStr ''success'')
        \<and> map_of resp ''policy'' = Some (VPolicy p)
        \<and> decision p = ''ALLOW'')"
proof -
  let ?q = "''Break down complaint volumes by product and state for the last 12 months.''"
  let ?plan = "projr (parse_nl_to_dsl (e_cal demo_env) ?q)"
  let ?resp = "projr (run_agent demo_env ?q ''analyst'')"
  let ?pr = "\<lambda>plan. policy_eval (policy_request_of plan ''analyst'') None"
  note t = parse_never_constrained [of demo_env ?q "''analyst''"]
  have p: "parse_nl_to_dsl (e_cal demo_env) ?q = Inr ?plan" by code_simp
  have r: "run_agent demo_env ?q ''analyst'' = Inr ?resp" by code_simp
  have st: "map_of ?resp ''status'' = Some (VStr ''success'')" by code_simp
  note c1 = t [THEN conjunct1, rule_format, OF p]
  have a: "privacy_min_group_size (dsl ?plan) = Some 10" by (rule c1 [THEN conjunct1])
  have b: "limit (dsl ?plan) = Some 200" by (rule c1 [THEN conjunct2, THEN conjunct1])
  from t [THEN conjunct2, THEN conjunct1, rule_format, OF r] obtain plan where
    pl: "parse_nl_to_dsl (e_cal demo_env) ?q = Inr plan"
    and cases: "map_of ?resp ''status'' = Some (VStr ''denied'')
                 \<and> decision (?pr plan) = ''DENY''
                 \<and> map_of ?resp ''policy'' = Some (VPolicy (?pr plan))
               \<or> map_of ?resp ''status'' = Some (VStr ''error'')
                 \<and> decision (?pr plan) = ''ALLOW''
                 \<and> map_of ?resp ''policy'' = None
               \<or> map_of ?resp ''status'' = Some (VStr ''success'')
                 \<and> decision (?pr plan) = ''ALLOW''
                 \<and> map_of ?resp ''policy'' = Some (VPolicy (?pr plan))"
    by (elim exE conjE)
  have ok: "decision (?pr plan) = ''ALLOW''
                 \<and> map_of ?resp ''policy'' = Some (VPolicy (?pr plan))"
    using cases unfolding st by simp
  from ok have o1: "decision (?pr plan) = ''ALLOW''" by (rule conjunct1)
  from ok have o2: "map_of ?resp ''policy'' = Some (VPolicy (?pr plan))" by (rule conjunct2)
  have "\<exists>resp p. run_agent demo_env ?q ''analyst'' = Inr resp
        \<and> map_of resp ''status'' = Some (VStr ''success'')
        \<and> map_of resp ''policy'' = Some (VPolicy p)
        \<and> decision p = ''ALLOW''"
    by (intro exI [of _ ?resp] exI [of _ "?pr plan"] conjI r st o2 o1)
  with a b show ?thesis by (intro conjI)
qed

end
